theory Spec2Isabelle
  imports Complex_Main
begin

section \<open>The rocket flight simulator (src/rocketSimulator.js)\<close>

text \<open>
  The class \<^verbatim>\<open>RocketSimulator\<close> is embedded with explicit state passing: every method
  takes the simulator object and returns the mutated one.

  Number model. JavaScript numbers are IEEE doubles; here they are mathematical reals, so
  rounding, infinities and NaN of the primary telemetry are not modelled. The real model and
  the source can differ where the source divides by zero or takes the root of a negative
  number (mass 0, weight 0, an orbital radius that is not positive); every theorem below is
  about comparisons, clamps and assignments and reads none of the values computed there.
  The secondary propulsion fields exist only once the abort or the landing sequencer has
  written them; before that they are \<^verbatim>\<open>undefined\<close> and arithmetic on them gives NaN, which
  is modelled by the type \<open>jsnum\<close>.

  \<^verbatim>\<open>console.log\<close> output is not modelled. The callback that \<^verbatim>\<open>separateStage\<close> hands to
  \<^verbatim>\<open>setTimeout\<close> is kept as a counter of pending timers; when the host's event loop runs it
  is outside the simulator, so firing is an event of its own (\<open>secondStageIgnition\<close>).
\<close>

subsection \<open>Data model\<close>

datatype phase =
  PAD | IGNITION | LAUNCH | ASCENT | MECO | STAGE_SEP | SECOND_STAGE | ORBIT
  | ABORT | LANDING | LANDED | ABORTED_STOPPED

datatype jsnum = JSUndefined | JSNaN | JSNum real

text \<open>\<^verbatim>\<open>Math.max(lo, x * k)\<close> and \<^verbatim>\<open>x + y\<close> on a field that may be undefined or NaN.\<close>

fun jsMaxScaled :: "real \<Rightarrow> jsnum \<Rightarrow> real \<Rightarrow> jsnum" where
  "jsMaxScaled lo (JSNum x) k = JSNum (max lo (x * k))"
| "jsMaxScaled lo JSUndefined k = JSNaN"
| "jsMaxScaled lo JSNaN k = JSNaN"

fun jsAdd :: "jsnum \<Rightarrow> jsnum \<Rightarrow> jsnum" where
  "jsAdd (JSNum x) (JSNum y) = JSNum (x + y)"
| "jsAdd x y = JSNaN"

text \<open>
  A stage of \<^verbatim>\<open>specs\<close>. The field \<^verbatim>\<open>thrust\<close> is named \<open>stageThrust\<close> (the telemetry has a
  \<^verbatim>\<open>thrust\<close> too). The second stage has no \<^verbatim>\<open>thrustVac\<close> in the source; the field is read
  only when \<^verbatim>\<open>stageNumber === 1\<close>, where the stage is the first one, so the value given to
  the second stage below is never read.
\<close>

record stage_spec =
  dryMass :: real
  propellantMass :: real
  stageThrust :: real
  thrustVac :: real
  burnTime :: real
  engines :: nat
  specificImpulse :: real

record vehicle_spec =
  vehicleName :: string
  stages :: nat
  totalMass :: real
  hasLandingCapability :: bool
  landingBurnAltitude :: real
  firstStage :: stage_spec
  secondStage :: stage_spec
  payload :: real
  dragCoefficient :: real
  crossSection :: real

record flight_state =
  phase :: phase
  stageNumber :: nat
  ignitionSequence :: bool
  engineStatus :: string
  guidanceMode :: string
  throttleLevel :: real
  missionTime :: real
  abortFlag :: bool
  landingBurnStarted :: bool
  landingLegsDeployed :: bool

record telemetry =
  altitude :: real
  velocity :: real
  acceleration :: real
  downrange :: real
  apogee :: real
  perigee :: real
  inclination :: real
  orbitalVelocity :: real
  mass :: real
  thrust :: real
  twr :: real
  maxQ :: real
  gForce :: real
  propellantRemaining :: real
  engineThrottle :: real
  chamberPressure :: real
  exhaustVelocity :: real
  pitch :: real
  yaw :: real
  roll :: real
  flightPathAngle :: real
  dynamicPressure :: real
  machNumber :: real
  atmosphericDensity :: real
  temperature :: real
  stage1FuelRemaining :: real
  stage2FuelRemaining :: real
  stage1BurnTime :: real
  stage2BurnTime :: real
  chamberTemperature :: jsnum
  fuelFlowRate :: jsnum
  oxidizerFlowRate :: jsnum
  totalFlowRate :: jsnum
  fuelTurbopumpRPM :: jsnum
  oxidizerTurbopumpRPM :: jsnum
  turbopumpInletPressure :: jsnum
  nozzleThroatTemp :: jsnum
  turbineInletTemp :: jsnum
  vibrationLevel :: jsnum
  gimbalAngleX :: jsnum
  gimbalAngleY :: jsnum

record physics_constants =
  g0 :: real
  earthRadius :: real
  atmosphereHeight :: real
  speedOfSound :: real
  airDensitySeaLevel :: real

record mission_params =
  targetAltitude :: real
  targetVelocity :: real
  maxQAltitude :: real
  stageSepAltitude :: real
  gravityTurnStart :: real
  targetInclination :: real

record limits_spec =
  maxQLimit :: real
  maxG :: real
  maxThrust :: real
  maxAltitude :: real
  maxVelocity :: real
  minChamberPressure :: real

text \<open>An anomaly record; the source's field \<^verbatim>\<open>value\<close> is named \<open>reading\<close>.\<close>

record anomaly =
  parameter :: string
  reading :: real
  limit :: real
  severity :: string
  message :: string

text \<open>
  The simulator object. \<open>pendingTimers\<close> counts the \<^verbatim>\<open>setTimeout\<close> callbacks that
  \<^verbatim>\<open>separateStage\<close> has scheduled and that have not run yet.
\<close>

record rocket_simulator =
  state :: flight_state
  telemetry :: telemetry
  anomalies :: "anomaly list"
  pendingTimers :: nat

subsection \<open>The constructor\<close>

text \<open>
  \<^verbatim>\<open>specs\<close>, \<^verbatim>\<open>constants\<close>, \<^verbatim>\<open>mission\<close> and \<^verbatim>\<open>limits\<close> are assigned in the constructor and
  nowhere else, so they are constants here. \<^verbatim>\<open>constants.Re\<close> is named \<open>earthRadius\<close>.
\<close>

definition specs :: vehicle_spec where
  "specs = \<lparr> vehicleName = ''Falcon-X'', stages = 2, totalMass = 549054,
     hasLandingCapability = True, landingBurnAltitude = 5000,
     firstStage = \<lparr> dryMass = 22200, propellantMass = 411000, stageThrust = 7607000,
       thrustVac = 8227000, burnTime = 162, engines = 9, specificImpulse = 282 \<rparr>,
     secondStage = \<lparr> dryMass = 4000, propellantMass = 111500, stageThrust = 934000,
       thrustVac = 0, burnTime = 397, engines = 1, specificImpulse = 348 \<rparr>,
     payload = 22800, dragCoefficient = 0.3, crossSection = 10.52 \<rparr>"

definition constants :: physics_constants where
  "constants = \<lparr> g0 = 9.81, earthRadius = 6371000, atmosphereHeight = 100000,
     speedOfSound = 343, airDensitySeaLevel = 1.225 \<rparr>"

definition mission :: mission_params where
  "mission = \<lparr> targetAltitude = 400000, targetVelocity = 7660, maxQAltitude = 13000,
     stageSepAltitude = 65000, gravityTurnStart = 150, targetInclination = 51.6 \<rparr>"

definition limits :: limits_spec where
  "limits = \<lparr> maxQLimit = 45000, maxG = 5, maxThrust = 8500000, maxAltitude = 500000,
     maxVelocity = 8000, minChamberPressure = 50 \<rparr>"

definition initialState :: flight_state where
  "initialState = \<lparr> phase = PAD, stageNumber = 1, ignitionSequence = False,
     engineStatus = ''OFF'', guidanceMode = ''GRAVITY_TURN'', throttleLevel = 100,
     missionTime = 0, abortFlag = False, landingBurnStarted = False,
     landingLegsDeployed = False \<rparr>"

definition initialTelemetry :: telemetry where
  "initialTelemetry = \<lparr> altitude = 0, velocity = 0, acceleration = 0, downrange = 0,
     apogee = 0, perigee = 0, inclination = 51.6, orbitalVelocity = 0,
     mass = totalMass specs, thrust = 0, twr = 0, maxQ = 0, gForce = 0,
     propellantRemaining = 100, engineThrottle = 0, chamberPressure = 0,
     exhaustVelocity = 0, pitch = 90, yaw = 0, roll = 0, flightPathAngle = 90,
     dynamicPressure = 0, machNumber = 0, atmosphericDensity = 1.225, temperature = 288,
     stage1FuelRemaining = 100, stage2FuelRemaining = 100, stage1BurnTime = 0,
     stage2BurnTime = 0,
     chamberTemperature = JSUndefined, fuelFlowRate = JSUndefined,
     oxidizerFlowRate = JSUndefined, totalFlowRate = JSUndefined,
     fuelTurbopumpRPM = JSUndefined, oxidizerTurbopumpRPM = JSUndefined,
     turbopumpInletPressure = JSUndefined, nozzleThroatTemp = JSUndefined,
     turbineInletTemp = JSUndefined, vibrationLevel = JSUndefined,
     gimbalAngleX = JSUndefined, gimbalAngleY = JSUndefined \<rparr>"

definition newRocketSimulator :: rocket_simulator where
  "newRocketSimulator = \<lparr> state = initialState, telemetry = initialTelemetry,
     anomalies = [], pendingTimers = 0 \<rparr>"

subsection \<open>Commands before flight\<close>

definition armIgnition :: "rocket_simulator \<Rightarrow> rocket_simulator" where
  "armIgnition e =
     (if phase (state e) = PAD then e\<lparr>state := (state e)\<lparr>ignitionSequence := True\<rparr>\<rparr> else e)"

definition startIgnitionSequence :: "rocket_simulator \<Rightarrow> rocket_simulator" where
  "startIgnitionSequence e =
     (if ignitionSequence (state e)
      then e\<lparr>state := (state e)\<lparr>phase := IGNITION, engineStatus := ''STARTING''\<rparr>\<rparr>
      else e)"

definition launch :: "rocket_simulator \<Rightarrow> rocket_simulator" where
  "launch e =
     (if phase (state e) = IGNITION \<or> phase (state e) = PAD
      then e\<lparr>state := (state e)\<lparr>phase := LAUNCH, engineStatus := ''RUNNING''\<rparr>\<rparr>
      else e)"

subsection \<open>Physics helpers\<close>

definition calculateThrust :: "rocket_simulator \<Rightarrow> stage_spec \<Rightarrow> real" where
  "calculateThrust e stage =
     (let atmosphericPressure = 101325 * exp (- altitude (telemetry e) / 8000);
          seaLevelPressure = 101325
      in if stageNumber (state e) = 1
         then (let thrustLoss = (atmosphericPressure / seaLevelPressure) *
                                (thrustVac stage - stageThrust stage)
               in stageThrust stage + thrustLoss)
         else stageThrust stage)"

definition calculateDrag :: "rocket_simulator \<Rightarrow> real" where
  "calculateDrag e =
     (if altitude (telemetry e) > atmosphereHeight constants then 0
      else (let density = atmosphericDensity (telemetry e);
                vel = velocity (telemetry e);
                area = crossSection specs;
                cd = dragCoefficient specs
            in 0.5 * density * vel * vel * cd * area))"

definition getGravity :: "rocket_simulator \<Rightarrow> real" where
  "getGravity e =
     (let r = earthRadius constants + altitude (telemetry e)
      in g0 constants * (earthRadius constants / r) ^ 2)"

definition updateGuidance :: "rocket_simulator \<Rightarrow> rocket_simulator" where
  "updateGuidance e0 =
     (let e = (if guidanceMode (state e0) = ''GRAVITY_TURN''
               then (if altitude (telemetry e0) > gravityTurnStart mission
                     then (let targetPitch = 90 - (altitude (telemetry e0) / 100000) * 45;
                               t = (telemetry e0)\<lparr>pitch := max targetPitch 0\<rparr>;
                               t = t\<lparr>flightPathAngle := pitch t\<rparr>
                           in e0\<lparr>telemetry := t\<rparr>)
                     else e0)
               else e0)
      in if dynamicPressure (telemetry e) > 35000 \<and> stageNumber (state e) = 1
         then e\<lparr>state := (state e)\<lparr>throttleLevel := 70\<rparr>\<rparr>
         else if dynamicPressure (telemetry e) < 25000 \<and> throttleLevel (state e) < 100
         then e\<lparr>state := (state e)\<lparr>throttleLevel := 100\<rparr>\<rparr>
         else e)"

subsection \<open>Phase updaters of powered flight and coast\<close>

definition simulateIgnition :: "rocket_simulator \<Rightarrow> rocket_simulator" where
  "simulateIgnition e0 =
     (let ignitionProgress = min (missionTime (state e0) * 10) 1;
          stage = firstStage specs;
          e = e0\<lparr>telemetry := (telemetry e0)\<lparr>
                thrust := stageThrust stage * ignitionProgress,
                engineThrottle := ignitionProgress * 100,
                chamberPressure := 270 * ignitionProgress\<rparr>\<rparr>
      in if ignitionProgress \<ge> 1
         then e\<lparr>state := (state e)\<lparr>phase := LAUNCH\<rparr>\<rparr>
         else e)"

definition simulateAscent :: "rocket_simulator \<Rightarrow> rocket_simulator" where
  "simulateAscent e0 =
     (let dt = 0.1;
          stage = (if stageNumber (state e0) = 1 then firstStage specs else secondStage specs);
          thrust' = calculateThrust e0 stage;
          thrust' = thrust' * (throttleLevel (state e0) / 100);
          e = e0\<lparr>telemetry := (telemetry e0)\<lparr>thrust := thrust'\<rparr>\<rparr>;
          fuelBurnRate = thrust' / (specificImpulse stage * g0 constants);
          e = e\<lparr>telemetry := (telemetry e)\<lparr>mass := mass (telemetry e) - fuelBurnRate * dt\<rparr>\<rparr>;
          e = (if stageNumber (state e) = 1
               then (let t = telemetry e;
                         t = t\<lparr>stage1BurnTime := stage1BurnTime t + dt\<rparr>;
                         t = t\<lparr>stage1FuelRemaining :=
                                 max 0 (100 * (1 - stage1BurnTime t / burnTime stage))\<rparr>;
                         t = t\<lparr>propellantRemaining := stage1FuelRemaining t\<rparr>
                     in e\<lparr>telemetry := t\<rparr>)
               else (let t = telemetry e;
                         t = t\<lparr>stage2BurnTime := stage2BurnTime t + dt\<rparr>;
                         t = t\<lparr>stage2FuelRemaining :=
                                 max 0 (100 * (1 - stage2BurnTime t / burnTime stage))\<rparr>;
                         t = t\<lparr>propellantRemaining := stage2FuelRemaining t\<rparr>
                     in e\<lparr>telemetry := t\<rparr>));
          weight = mass (telemetry e) * getGravity e;
          drag = calculateDrag e;
          netForce = thrust' - weight - drag;
          t = telemetry e;
          t = t\<lparr>acceleration := netForce / mass t\<rparr>;
          t = t\<lparr>gForce := acceleration t / g0 constants\<rparr>;
          t = t\<lparr>velocity := velocity t + acceleration t * dt\<rparr>;
          t = t\<lparr>altitude := altitude t + velocity t * dt\<rparr>;
          horizontalVel = velocity t * sin (pi * (90 - pitch t) / 180);
          t = t\<lparr>downrange := downrange t + (horizontalVel * dt) / 1000\<rparr>;
          e = updateGuidance (e\<lparr>telemetry := t\<rparr>);
          t = telemetry e;
          t = t\<lparr>exhaustVelocity := specificImpulse stage * g0 constants\<rparr>;
          t = t\<lparr>chamberPressure := 270 * (engineThrottle t / 100)\<rparr>;
          t = t\<lparr>twr := thrust' / weight\<rparr>
      in e\<lparr>telemetry := t\<rparr>)"

definition simulateMECO :: "rocket_simulator \<Rightarrow> rocket_simulator" where
  "simulateMECO e =
     (let dt = 0.1;
          weight = mass (telemetry e) * getGravity e;
          drag = calculateDrag e;
          t = telemetry e;
          t = t\<lparr>acceleration := - (weight + drag) / mass t\<rparr>;
          t = t\<lparr>velocity := velocity t + acceleration t * dt\<rparr>;
          t = t\<lparr>altitude := altitude t + velocity t * dt\<rparr>;
          t = t\<lparr>gForce := acceleration t / g0 constants\<rparr>
      in e\<lparr>telemetry := t\<rparr>)"

definition simulateStageSeparation :: "rocket_simulator \<Rightarrow> rocket_simulator" where
  "simulateStageSeparation e = simulateMECO e"

definition simulateSecondStage :: "rocket_simulator \<Rightarrow> rocket_simulator" where
  "simulateSecondStage e = simulateAscent e"

subsection \<open>Environment and orbital estimate\<close>

definition updateEnvironment :: "rocket_simulator \<Rightarrow> rocket_simulator" where
  "updateEnvironment e =
     (let alt = altitude (telemetry e)
      in if alt < atmosphereHeight constants
         then (let t = telemetry e;
                   t = t\<lparr>atmosphericDensity := airDensitySeaLevel constants * exp (- alt / 8000)\<rparr>;
                   t = (if alt < 11000 then t\<lparr>temperature := 288 - 0.0065 * alt\<rparr>
                        else if alt < 25000 then t\<lparr>temperature := 216.65\<rparr>
                        else t\<lparr>temperature := 216.65 + 0.0028 * (alt - 25000)\<rparr>);
                   speedOfSound' = sqrt (1.4 * 287 * temperature t);
                   t = t\<lparr>machNumber := velocity t / speedOfSound'\<rparr>;
                   t = t\<lparr>dynamicPressure := 0.5 * atmosphericDensity t * velocity t * velocity t\<rparr>;
                   t = (if dynamicPressure t > maxQ t then t\<lparr>maxQ := dynamicPressure t\<rparr> else t)
               in e\<lparr>telemetry := t\<rparr>)
         else e\<lparr>telemetry := (telemetry e)\<lparr>atmosphericDensity := 0, dynamicPressure := 0,
                  machNumber := 0, temperature := 2.7\<rparr>\<rparr>)"

definition calculateOrbitalParams :: "rocket_simulator \<Rightarrow> rocket_simulator" where
  "calculateOrbitalParams e =
     (let alt = altitude (telemetry e);
          vel = velocity (telemetry e);
          r = earthRadius constants + alt;
          orbitalVel = sqrt (g0 constants * earthRadius constants * earthRadius constants / r);
          t = (telemetry e)\<lparr>orbitalVelocity := orbitalVel\<rparr>;
          t = (if vel > 0
               then (let energy = (vel * vel / 2) -
                                  (g0 constants * earthRadius constants * earthRadius constants / r);
                         a = - g0 constants * earthRadius constants * earthRadius constants
                               / (2 * energy)
                     in if a > 0
                        then t\<lparr>apogee := (a * 2 - r) / 1000, perigee := alt / 1000\<rparr>
                        else t)
               else t)
      in e\<lparr>telemetry := t\<rparr>)"

subsection \<open>Staging\<close>

text \<open>
  \<^verbatim>\<open>separateStage\<close> schedules a callback with \<^verbatim>\<open>setTimeout(..., 2000)\<close>; the callback is
  \<open>secondStageIgnition\<close>, and \<open>timerFires\<close> is the event loop running one pending callback.
\<close>

definition separateStage :: "rocket_simulator \<Rightarrow> rocket_simulator" where
  "separateStage e =
     (if stageNumber (state e) = 1
      then e\<lparr>state := (state e)\<lparr>phase := STAGE_SEP, stageNumber := 2\<rparr>,
              telemetry := (telemetry e)\<lparr>mass := dryMass (secondStage specs) +
                 propellantMass (secondStage specs) + payload specs\<rparr>,
              pendingTimers := pendingTimers e + 1\<rparr>
      else e)"

definition secondStageIgnition :: "rocket_simulator \<Rightarrow> rocket_simulator" where
  "secondStageIgnition e = e\<lparr>state := (state e)\<lparr>phase := SECOND_STAGE\<rparr>\<rparr>"

definition timerFires :: "rocket_simulator \<Rightarrow> rocket_simulator" where
  "timerFires e =
     (if pendingTimers e = 0 then e
      else secondStageIgnition (e\<lparr>pendingTimers := pendingTimers e - 1\<rparr>))"

definition checkPhaseTransitions :: "rocket_simulator \<Rightarrow> rocket_simulator" where
  "checkPhaseTransitions e0 =
     (let e = (if phase (state e0) = LAUNCH \<and> altitude (telemetry e0) > 1000
               then e0\<lparr>state := (state e0)\<lparr>phase := ASCENT\<rparr>\<rparr> else e0);
          e = (if phase (state e) = ASCENT \<and> stageNumber (state e) = 1
               then (if stage1FuelRemaining (telemetry e) \<le> 0 \<or>
                        stage1BurnTime (telemetry e) \<ge> burnTime (firstStage specs)
                     then e\<lparr>state := (state e)\<lparr>phase := MECO\<rparr>,
                             telemetry := (telemetry e)\<lparr>thrust := 0\<rparr>\<rparr>
                     else e)
               else e);
          e = (if phase (state e) = MECO \<and> missionTime (state e) > 3
               then separateStage e else e)
      in if phase (state e) = SECOND_STAGE
         then (if stage2FuelRemaining (telemetry e) \<le> 0 \<or>
                  altitude (telemetry e) \<ge> targetAltitude mission \<or>
                  velocity (telemetry e) \<ge> targetVelocity mission
               then e\<lparr>state := (state e)\<lparr>phase := ORBIT\<rparr>,
                       telemetry := (telemetry e)\<lparr>thrust := 0\<rparr>\<rparr>
               else e)
         else e)"

subsection \<open>The abort sequencer\<close>

definition abort :: "rocket_simulator \<Rightarrow> rocket_simulator" where
  "abort e = e\<lparr>state := (state e)\<lparr>phase := ABORT, abortFlag := True\<rparr>,
                telemetry := (telemetry e)\<lparr>thrust := 0\<rparr>\<rparr>"

text \<open>
  Assignments of the source that do not read one another are written as one record update;
  where a later statement reads an earlier result the updates are sequenced with \<open>let\<close>.
\<close>

definition simulateAbort :: "rocket_simulator \<Rightarrow> rocket_simulator" where
  "simulateAbort e =
     (if altitude (telemetry e) \<le> 0 \<and> velocity (telemetry e) \<le> 0
      then e\<lparr>telemetry := (telemetry e)\<lparr>altitude := 0, velocity := 0, acceleration := 0,
                 gForce := 0, thrust := 0, chamberPressure := 0,
                 chamberTemperature := JSNum 300, fuelFlowRate := JSNum 0,
                 oxidizerFlowRate := JSNum 0, totalFlowRate := JSNum 0,
                 fuelTurbopumpRPM := JSNum 0, oxidizerTurbopumpRPM := JSNum 0,
                 turbopumpInletPressure := JSNum 0, nozzleThroatTemp := JSNum 300,
                 turbineInletTemp := JSNum 300, dynamicPressure := 0, machNumber := 0,
                 vibrationLevel := JSNum 0, exhaustVelocity := 0\<rparr>,
              state := (state e)\<lparr>phase := ABORTED_STOPPED,
                 engineStatus := ''SHUTDOWN - ABORTED''\<rparr>\<rparr>
      else
       (let t = telemetry e;
            t = t\<lparr>thrust := 0,
                  chamberPressure := max 0 (chamberPressure t * 0.85),
                  chamberTemperature := jsMaxScaled 300 (chamberTemperature t) 0.90,
                  altitude := max 0 (altitude t * 0.85),
                  velocity := max 0 (velocity t * 0.75),
                  downrange := max 0 (downrange t * 0.98),
                  acceleration := - 9.81,
                  gForce := - 1,
                  fuelFlowRate := jsMaxScaled 0 (fuelFlowRate t) 0.70,
                  oxidizerFlowRate := jsMaxScaled 0 (oxidizerFlowRate t) 0.70\<rparr>;
            t = t\<lparr>totalFlowRate := jsAdd (fuelFlowRate t) (oxidizerFlowRate t)\<rparr>;
            t = t\<lparr>propellantRemaining := max 0 (propellantRemaining t * 0.95),
                  fuelTurbopumpRPM := jsMaxScaled 0 (fuelTurbopumpRPM t) 0.75,
                  oxidizerTurbopumpRPM := jsMaxScaled 0 (oxidizerTurbopumpRPM t) 0.75,
                  turbopumpInletPressure := jsMaxScaled 0 (turbopumpInletPressure t) 0.80,
                  nozzleThroatTemp := jsMaxScaled 300 (nozzleThroatTemp t) 0.88,
                  turbineInletTemp := jsMaxScaled 300 (turbineInletTemp t) 0.88,
                  dynamicPressure := 0,
                  machNumber := 0,
                  vibrationLevel := jsMaxScaled 0 (vibrationLevel t) 0.70,
                  exhaustVelocity := max 0 (exhaustVelocity t * 0.80),
                  mass := max (totalMass specs * 0.3) (mass t * 0.995)\<rparr>;
            t = (if altitude t < 100 then t\<lparr>altitude := max 0 (altitude t * 0.5)\<rparr> else t)
        in if altitude t < 1
           then e\<lparr>telemetry := t\<lparr>altitude := 0, velocity := 0, acceleration := 0,
                      gForce := 0, fuelTurbopumpRPM := JSNum 0,
                      oxidizerTurbopumpRPM := JSNum 0, fuelFlowRate := JSNum 0,
                      oxidizerFlowRate := JSNum 0, totalFlowRate := JSNum 0\<rparr>,
                   state := (state e)\<lparr>phase := ABORTED_STOPPED,
                      engineStatus := ''SHUTDOWN - ABORTED''\<rparr>\<rparr>
           else e\<lparr>telemetry := t\<rparr>))"

subsection \<open>The landing sequencer\<close>

definition initiateLanding :: "rocket_simulator \<Rightarrow> rocket_simulator" where
  "initiateLanding e = e\<lparr>state := (state e)\<lparr>phase := LANDING, landingBurnStarted := False\<rparr>\<rparr>"

text \<open>
  The bodies of the seven branches of \<^verbatim>\<open>simulateLanding\<close>, named after the comments
  \<^verbatim>\<open>Phase 1\<close> to \<^verbatim>\<open>Phase 7\<close> that head them in the source. The time step is 0.1.
\<close>

definition landingPhase1 :: "rocket_simulator \<Rightarrow> rocket_simulator" where
  "landingPhase1 e =
     (let t = telemetry e;
          t = t\<lparr>velocity := max (- 1200) (velocity t - 30)\<rparr>;
          t = t\<lparr>altitude := altitude t + velocity t * 0.1\<rparr>;
          t = t\<lparr>thrust := 1800000, engineThrottle := 30\<rparr>;
          t = t\<lparr>machNumber := \<bar>velocity t\<bar> / 343,
                dynamicPressure := 0.5 * 0.01 * velocity t * velocity t\<rparr>
      in e\<lparr>telemetry := t,
            state := (state e)\<lparr>engineStatus := ''RE-ENTRY BURN (3 ENGINES)''\<rparr>\<rparr>)"

definition landingPhase2 :: "rocket_simulator \<Rightarrow> rocket_simulator" where
  "landingPhase2 e =
     (let t = telemetry e;
          t = t\<lparr>velocity := max (- 350) (velocity t - 15)\<rparr>;
          t = t\<lparr>altitude := altitude t + velocity t * 0.1\<rparr>;
          t = t\<lparr>thrust := 0, engineThrottle := 0\<rparr>;
          t = t\<lparr>pitch := 88 + sin (missionTime (state e) * 0.5) * 2,
                gimbalAngleX := JSNum (sin (missionTime (state e) * 1.5) * 3),
                gimbalAngleY := JSNum (cos (missionTime (state e) * 1.5) * 3)\<rparr>
      in e\<lparr>telemetry := t, state := (state e)\<lparr>engineStatus := ''GRID FIN CONTROL''\<rparr>\<rparr>)"

definition landingPhase3 :: "rocket_simulator \<Rightarrow> rocket_simulator" where
  "landingPhase3 e =
     (let t = telemetry e;
          t = t\<lparr>velocity := max (- 250) (velocity t + 10)\<rparr>;
          t = t\<lparr>altitude := altitude t + velocity t * 0.1\<rparr>;
          t = t\<lparr>thrust := 2200000, engineThrottle := 70\<rparr>
      in e\<lparr>telemetry := t, state := (state e)\<lparr>engineStatus := ''ENTRY BURN (3 ENGINES)''\<rparr>\<rparr>)"

definition landingPhase4 :: "rocket_simulator \<Rightarrow> rocket_simulator" where
  "landingPhase4 e0 =
     (let t = telemetry e0;
          t = t\<lparr>velocity := max (- 120) (velocity t - 8)\<rparr>;
          t = t\<lparr>altitude := altitude t + velocity t * 0.1\<rparr>;
          t = t\<lparr>thrust := 0, engineThrottle := 0\<rparr>;
          e = e0\<lparr>telemetry := t,
                 state := (state e0)\<lparr>engineStatus := ''PREPARING LANDING BURN''\<rparr>\<rparr>
      in if altitude (telemetry e) \<le> 600
         then e\<lparr>state := (state e)\<lparr>landingBurnStarted := True\<rparr>\<rparr>
         else e)"

definition landingPhase5 :: "rocket_simulator \<Rightarrow> rocket_simulator" where
  "landingPhase5 e0 =
     (let t = telemetry e0;
          timeToImpact = \<bar>altitude t / velocity t\<bar>;
          requiredDeceleration = \<bar>velocity t\<bar> / timeToImpact;
          requiredThrust = mass t * (requiredDeceleration + 9.81);
          maxSingleEngineThrust = 850000;
          minThrust = maxSingleEngineThrust * 0.4;
          t = t\<lparr>thrust := min maxSingleEngineThrust (max minThrust requiredThrust)\<rparr>;
          t = t\<lparr>engineThrottle := (thrust t / maxSingleEngineThrust) * 100\<rparr>;
          acceleration' = (thrust t / mass t) - 9.81;
          t = t\<lparr>velocity := velocity t + acceleration' * 0.1\<rparr>;
          t = t\<lparr>altitude := altitude t + velocity t * 0.1\<rparr>;
          t = t\<lparr>chamberPressure := 100 + 150 * (engineThrottle t / 100),
                chamberTemperature := JSNum (2500 + 800 * (engineThrottle t / 100)),
                fuelFlowRate := JSNum (250 * (engineThrottle t / 100)),
                oxidizerFlowRate := JSNum (650 * (engineThrottle t / 100))\<rparr>;
          e = e0\<lparr>telemetry := t,
                 state := (state e0)\<lparr>engineStatus := ''LANDING BURN (1 ENGINE)''\<rparr>\<rparr>
      in if altitude (telemetry e) < 40 \<and> \<not> landingLegsDeployed (state e)
         then e\<lparr>state := (state e)\<lparr>landingLegsDeployed := True\<rparr>\<rparr>
         else e)"

definition landingPhase6 :: "rocket_simulator \<Rightarrow> rocket_simulator" where
  "landingPhase6 e =
     (let t = telemetry e;
          targetVelocity' = - sqrt (altitude t * 0.8);
          t = t\<lparr>velocity := max (- 5) targetVelocity'\<rparr>;
          t = t\<lparr>altitude := max 0 (altitude t + velocity t * 0.1)\<rparr>;
          hoverThrust = mass t * 9.81;
          velocityCorrection = (targetVelocity' - velocity t) * mass t * 10;
          t = t\<lparr>thrust := max 400000 (min 850000 (hoverThrust + velocityCorrection))\<rparr>;
          t = t\<lparr>engineThrottle := (thrust t / 850000) * 100\<rparr>
      in e\<lparr>telemetry := t, state := (state e)\<lparr>engineStatus := ''TOUCHDOWN BURN''\<rparr>\<rparr>)"

definition landingPhase7 :: "rocket_simulator \<Rightarrow> rocket_simulator" where
  "landingPhase7 e =
     e\<lparr>telemetry := (telemetry e)\<lparr>altitude := 0, velocity := 0, thrust := 0,
          engineThrottle := 0, chamberPressure := 0, chamberTemperature := JSNum 300,
          fuelFlowRate := JSNum 0, oxidizerFlowRate := JSNum 0, totalFlowRate := JSNum 0,
          acceleration := 0, gForce := 0, fuelTurbopumpRPM := JSNum 0,
          oxidizerTurbopumpRPM := JSNum 0, turbopumpInletPressure := JSNum 0,
          nozzleThroatTemp := JSNum 300, turbineInletTemp := JSNum 300,
          dynamicPressure := 0, machNumber := 0, vibrationLevel := JSNum 0,
          exhaustVelocity := 0\<rparr>,
       state := (state e)\<lparr>phase := LANDED, engineStatus := ''SHUTDOWN - LANDED''\<rparr>\<rparr>"

text \<open>
  The number of the branch that the \<^verbatim>\<open>if\<close>/\<^verbatim>\<open>else if\<close> chain of \<^verbatim>\<open>simulateLanding\<close> takes,
  with the chain's own conditions in the chain's own order.
\<close>

definition landingBand :: "real \<Rightarrow> bool \<Rightarrow> nat" where
  "landingBand alt burnStarted =
     (if alt > 50000 then 1
      else if alt > 7000 then 2
      else if alt > 2000 then 3
      else if alt > 500 \<and> \<not> burnStarted then 4
      else if burnStarted \<and> alt > 20 then 5
      else if alt \<le> 20 \<and> alt > 0 then 6
      else 7)"

definition landingBranch :: "nat \<Rightarrow> rocket_simulator \<Rightarrow> rocket_simulator" where
  "landingBranch n e =
     (if n = 1 then landingPhase1 e
      else if n = 2 then landingPhase2 e
      else if n = 3 then landingPhase3 e
      else if n = 4 then landingPhase4 e
      else if n = 5 then landingPhase5 e
      else if n = 6 then landingPhase6 e
      else landingPhase7 e)"

text \<open>The statements after the chain (\<^verbatim>\<open>Update other parameters\<close>, \<^verbatim>\<open>Turbopump activity\<close>).\<close>

definition landingOtherParameters :: "rocket_simulator \<Rightarrow> rocket_simulator" where
  "landingOtherParameters e =
     (let t = telemetry e;
          t = t\<lparr>acceleration := thrust t / mass t - 9.81\<rparr>;
          t = t\<lparr>gForce := acceleration t / 9.81,
                totalFlowRate := jsAdd (fuelFlowRate t) (oxidizerFlowRate t),
                fuelTurbopumpRPM := JSNum (20000 * (engineThrottle t / 100)),
                oxidizerTurbopumpRPM := JSNum (22000 * (engineThrottle t / 100))\<rparr>
      in e\<lparr>telemetry := t\<rparr>)"

definition simulateLanding :: "rocket_simulator \<Rightarrow> rocket_simulator" where
  "simulateLanding e =
     (if phase (state e) = LANDED
      then e\<lparr>telemetry := (telemetry e)\<lparr>altitude := 0, velocity := 0, thrust := 0,
                 engineThrottle := 0, chamberPressure := 0, fuelFlowRate := JSNum 0,
                 oxidizerFlowRate := JSNum 0, acceleration := 0, gForce := 0,
                 totalFlowRate := JSNum 0, fuelTurbopumpRPM := JSNum 0,
                 oxidizerTurbopumpRPM := JSNum 0\<rparr>,
              state := (state e)\<lparr>engineStatus := ''SHUTDOWN - LANDED''\<rparr>\<rparr>
      else landingOtherParameters
             (if altitude (telemetry e) > 50000 then landingPhase1 e
              else if altitude (telemetry e) > 7000 then landingPhase2 e
              else if altitude (telemetry e) > 2000 then landingPhase3 e
              else if altitude (telemetry e) > 500 \<and> \<not> landingBurnStarted (state e)
                   then landingPhase4 e
              else if landingBurnStarted (state e) \<and> altitude (telemetry e) > 20
                   then landingPhase5 e
              else if altitude (telemetry e) \<le> 20 \<and> altitude (telemetry e) > 0
                   then landingPhase6 e
              else landingPhase7 e))"

subsection \<open>Throttle command and anomaly detector\<close>

text \<open>
  The argument of \<^verbatim>\<open>setThrottle\<close> is a number. For an argument that is not one
  (\<^verbatim>\<open>undefined\<close>, NaN, a non-numeric string) the source stores NaN, which the real model
  does not have; so no bound on the throttle level is derived from the runs of the model, and
  a theorem that needs one carries it as a hypothesis.
\<close>

definition setThrottle :: "real \<Rightarrow> rocket_simulator \<Rightarrow> rocket_simulator" where
  "setThrottle level e = e\<lparr>state := (state e)\<lparr>throttleLevel := max 0 (min 100 level)\<rparr>\<rparr>"

text \<open>
  \<^verbatim>\<open>checkAnomalies\<close> builds a local array by three conditional pushes and returns it. The
  model returns the array together with the simulator object as the method leaves it.
\<close>

definition checkAnomalies :: "rocket_simulator \<Rightarrow> anomaly list \<times> rocket_simulator" where
  "checkAnomalies e =
     (let found = [];
          found = (if dynamicPressure (telemetry e) > maxQLimit limits
                   then found @ [\<lparr> parameter = ''dynamicPressure'',
                           reading = dynamicPressure (telemetry e),
                           limit = maxQLimit limits, severity = ''WARNING'',
                           message = ''Approaching max-Q limits'' \<rparr>]
                   else found);
          found = (if \<bar>gForce (telemetry e)\<bar> > maxG limits
                   then found @ [\<lparr> parameter = ''gForce'',
                           reading = gForce (telemetry e),
                           limit = maxG limits, severity = ''CRITICAL'',
                           message = ''Excessive G-forces detected'' \<rparr>]
                   else found);
          found = (if thrust (telemetry e) > maxThrust limits
                   then found @ [\<lparr> parameter = ''thrust'',
                           reading = thrust (telemetry e),
                           limit = maxThrust limits, severity = ''CRITICAL'',
                           message = ''Engine over-thrust condition'' \<rparr>]
                   else found)
      in (found, e))"

definition getState :: "rocket_simulator \<Rightarrow> flight_state" where
  "getState e = state e"

definition getTelemetry :: "rocket_simulator \<Rightarrow> telemetry" where
  "getTelemetry e = telemetry e"

subsection \<open>The tick\<close>

text \<open>
  \<^verbatim>\<open>updateSimulation\<close> returns \<^verbatim>\<open>this.telemetry\<close>; in the model the value returned by a call
  on \<open>e\<close> is \<open>telemetry (updateSimulation e)\<close>. \<open>advanceMissionTime\<close> is the statement that
  increments the mission time and \<open>dispatchPhase\<close> is the \<^verbatim>\<open>switch\<close>.
\<close>

definition advanceMissionTime :: "rocket_simulator \<Rightarrow> rocket_simulator" where
  "advanceMissionTime e =
     (if phase (state e) \<noteq> ABORT \<and> phase (state e) \<noteq> LANDING
      then e\<lparr>state := (state e)\<lparr>missionTime := missionTime (state e) + 0.1\<rparr>\<rparr>
      else e)"

definition dispatchPhase :: "rocket_simulator \<Rightarrow> rocket_simulator" where
  "dispatchPhase e =
     (case phase (state e) of
        IGNITION \<Rightarrow> simulateIgnition e
      | LAUNCH \<Rightarrow> simulateAscent e
      | ASCENT \<Rightarrow> simulateAscent e
      | MECO \<Rightarrow> simulateMECO e
      | STAGE_SEP \<Rightarrow> simulateStageSeparation e
      | SECOND_STAGE \<Rightarrow> simulateSecondStage e
      | ABORT \<Rightarrow> simulateAbort e
      | LANDING \<Rightarrow> simulateLanding e
      | _ \<Rightarrow> e)"

definition updateSimulation :: "rocket_simulator \<Rightarrow> rocket_simulator" where
  "updateSimulation e =
     (if phase (state e) = PAD \<or> phase (state e) = ORBIT \<or> phase (state e) = LANDED
      then e
      else checkPhaseTransitions
             (calculateOrbitalParams
               (updateEnvironment
                 (dispatchPhase (advanceMissionTime e)))))"

subsection \<open>Runs\<close>

text \<open>
  A run is the constructor followed by calls of the public methods in any order, with the
  pending timer callbacks firing in between.
\<close>

datatype event =
  EvArmIgnition | EvStartIgnitionSequence | EvLaunch | EvUpdateSimulation
  | EvSeparateStage | EvAbort | EvInitiateLanding | EvSetThrottle real
  | EvCheckAnomalies | EvTimerFires

fun applyEvent :: "event \<Rightarrow> rocket_simulator \<Rightarrow> rocket_simulator" where
  "applyEvent EvArmIgnition e = armIgnition e"
| "applyEvent EvStartIgnitionSequence e = startIgnitionSequence e"
| "applyEvent EvLaunch e = launch e"
| "applyEvent EvUpdateSimulation e = updateSimulation e"
| "applyEvent EvSeparateStage e = separateStage e"
| "applyEvent EvAbort e = abort e"
| "applyEvent EvInitiateLanding e = initiateLanding e"
| "applyEvent (EvSetThrottle level) e = setThrottle level e"
| "applyEvent EvCheckAnomalies e = snd (checkAnomalies e)"
| "applyEvent EvTimerFires e = timerFires e"

fun run :: "event list \<Rightarrow> rocket_simulator \<Rightarrow> rocket_simulator" where
  "run [] e = e"
| "run (ev # evs) e = run evs (applyEvent ev e)"

text \<open>
  The dynamic pressures seen during a run: one value for every tick that reaches the
  environment update (a tick in \<open>PAD\<close>, \<open>ORBIT\<close> or \<open>LANDED\<close> returns before it), read
  right after \<^verbatim>\<open>updateEnvironment\<close> has run.
\<close>

fun observedQ :: "event list \<Rightarrow> rocket_simulator \<Rightarrow> real list" where
  "observedQ [] e = []"
| "observedQ (EvUpdateSimulation # evs) e =
     (if phase (state e) = PAD \<or> phase (state e) = ORBIT \<or> phase (state e) = LANDED
      then []
      else [dynamicPressure (telemetry
              (updateEnvironment (dispatchPhase (advanceMissionTime e))))])
     @ observedQ evs (updateSimulation e)"
| "observedQ (ev # evs) e = observedQ evs (applyEvent ev e)"

text \<open>
  The propellant percentage is in range and the burn-time accumulators are not negative.
\<close>

definition propellantInRange :: "rocket_simulator \<Rightarrow> bool" where
  "propellantInRange e \<longleftrightarrow>
     0 \<le> propellantRemaining (telemetry e) \<and> propellantRemaining (telemetry e) \<le> 100
     \<and> 0 \<le> stage1BurnTime (telemetry e) \<and> 0 \<le> stage2BurnTime (telemetry e)"

text \<open>
  The first-stage burn time is never ahead of the mission time, a first-stage propellant
  percentage of 0 means that the rated burn time has been reached, and the phase is not
  \<open>MECO\<close>.
\<close>

definition burnClock :: "rocket_simulator \<Rightarrow> bool" where
  "burnClock e \<longleftrightarrow>
     stage1BurnTime (telemetry e) \<le> missionTime (state e)
     \<and> (stage1FuelRemaining (telemetry e) \<le> 0
          \<longrightarrow> burnTime (firstStage specs) \<le> stage1BurnTime (telemetry e))
     \<and> phase (state e) \<noteq> MECO"

subsection \<open>Sample states\<close>

text \<open>
  A simulator that is in phase \<open>p\<close> with stage \<open>n\<close> active and the constructor's values
  everywhere else, and the same with chosen telemetry.
\<close>

definition inFlight :: "phase \<Rightarrow> nat \<Rightarrow> rocket_simulator" where
  "inFlight p n = newRocketSimulator\<lparr>state := initialState\<lparr>phase := p, stageNumber := n\<rparr>\<rparr>"

definition withTelemetry :: "(telemetry \<Rightarrow> telemetry) \<Rightarrow> rocket_simulator \<Rightarrow> rocket_simulator" where
  "withTelemetry f e = e\<lparr>telemetry := f (telemetry e)\<rparr>"

definition withState :: "(flight_state \<Rightarrow> flight_state) \<Rightarrow> rocket_simulator \<Rightarrow> rocket_simulator" where
  "withState f e = e\<lparr>state := f (state e)\<rparr>"

section \<open>What each step of the tick reads and writes\<close>

lemmas vehicle_defs = specs_def constants_def mission_def limits_def

lemmas constructor_defs = newRocketSimulator_def initialState_def initialTelemetry_def

lemma advanceMissionTime_frame [simp]:
  "telemetry (advanceMissionTime e) = telemetry e"
  "pendingTimers (advanceMissionTime e) = pendingTimers e"
  "phase (state (advanceMissionTime e)) = phase (state e)"
  "stageNumber (state (advanceMissionTime e)) = stageNumber (state e)"
  "throttleLevel (state (advanceMissionTime e)) = throttleLevel (state e)"
  "engineStatus (state (advanceMissionTime e)) = engineStatus (state e)"
  "landingBurnStarted (state (advanceMissionTime e)) = landingBurnStarted (state e)"
  by (simp_all add: advanceMissionTime_def)

lemma advanceMissionTime_time:
  "missionTime (state (advanceMissionTime e)) =
     (if phase (state e) \<noteq> ABORT \<and> phase (state e) \<noteq> LANDING
      then missionTime (state e) + 0.1 else missionTime (state e))"
  by (simp add: advanceMissionTime_def)

lemma updateEnvironment_frame [simp]:
  "state (updateEnvironment e) = state e"
  "pendingTimers (updateEnvironment e) = pendingTimers e"
  "altitude (telemetry (updateEnvironment e)) = altitude (telemetry e)"
  "velocity (telemetry (updateEnvironment e)) = velocity (telemetry e)"
  "thrust (telemetry (updateEnvironment e)) = thrust (telemetry e)"
  "mass (telemetry (updateEnvironment e)) = mass (telemetry e)"
  "propellantRemaining (telemetry (updateEnvironment e)) = propellantRemaining (telemetry e)"
  "stage1BurnTime (telemetry (updateEnvironment e)) = stage1BurnTime (telemetry e)"
  "stage2BurnTime (telemetry (updateEnvironment e)) = stage2BurnTime (telemetry e)"
  "stage1FuelRemaining (telemetry (updateEnvironment e)) = stage1FuelRemaining (telemetry e)"
  "stage2FuelRemaining (telemetry (updateEnvironment e)) = stage2FuelRemaining (telemetry e)"
  by (simp_all add: updateEnvironment_def Let_def)

lemma calculateOrbitalParams_frame [simp]:
  "state (calculateOrbitalParams e) = state e"
  "pendingTimers (calculateOrbitalParams e) = pendingTimers e"
  "altitude (telemetry (calculateOrbitalParams e)) = altitude (telemetry e)"
  "velocity (telemetry (calculateOrbitalParams e)) = velocity (telemetry e)"
  "thrust (telemetry (calculateOrbitalParams e)) = thrust (telemetry e)"
  "mass (telemetry (calculateOrbitalParams e)) = mass (telemetry e)"
  "maxQ (telemetry (calculateOrbitalParams e)) = maxQ (telemetry e)"
  "dynamicPressure (telemetry (calculateOrbitalParams e)) = dynamicPressure (telemetry e)"
  "propellantRemaining (telemetry (calculateOrbitalParams e)) = propellantRemaining (telemetry e)"
  "stage1BurnTime (telemetry (calculateOrbitalParams e)) = stage1BurnTime (telemetry e)"
  "stage2BurnTime (telemetry (calculateOrbitalParams e)) = stage2BurnTime (telemetry e)"
  "stage1FuelRemaining (telemetry (calculateOrbitalParams e)) = stage1FuelRemaining (telemetry e)"
  "stage2FuelRemaining (telemetry (calculateOrbitalParams e)) = stage2FuelRemaining (telemetry e)"
  by (simp_all add: calculateOrbitalParams_def Let_def)

lemma checkPhaseTransitions_frame [simp]:
  "throttleLevel (state (checkPhaseTransitions e)) = throttleLevel (state e)"
  "missionTime (state (checkPhaseTransitions e)) = missionTime (state e)"
  "engineStatus (state (checkPhaseTransitions e)) = engineStatus (state e)"
  "altitude (telemetry (checkPhaseTransitions e)) = altitude (telemetry e)"
  "velocity (telemetry (checkPhaseTransitions e)) = velocity (telemetry e)"
  "maxQ (telemetry (checkPhaseTransitions e)) = maxQ (telemetry e)"
  "dynamicPressure (telemetry (checkPhaseTransitions e)) = dynamicPressure (telemetry e)"
  "propellantRemaining (telemetry (checkPhaseTransitions e)) = propellantRemaining (telemetry e)"
  "stage1BurnTime (telemetry (checkPhaseTransitions e)) = stage1BurnTime (telemetry e)"
  "stage2BurnTime (telemetry (checkPhaseTransitions e)) = stage2BurnTime (telemetry e)"
  by (simp_all add: checkPhaseTransitions_def separateStage_def Let_def)

text \<open>Outside the flight phases \<open>LAUNCH\<close> to \<open>SECOND_STAGE\<close> no transition predicate fires.\<close>

lemma checkPhaseTransitions_idle:
  "phase (state e) \<notin> {LAUNCH, ASCENT, MECO, SECOND_STAGE} \<Longrightarrow> checkPhaseTransitions e = e"
  by (simp add: checkPhaseTransitions_def Let_def)

lemma updateGuidance_frame [simp]:
  "pendingTimers (updateGuidance e) = pendingTimers e"
  "phase (state (updateGuidance e)) = phase (state e)"
  "stageNumber (state (updateGuidance e)) = stageNumber (state e)"
  "missionTime (state (updateGuidance e)) = missionTime (state e)"
  "altitude (telemetry (updateGuidance e)) = altitude (telemetry e)"
  "velocity (telemetry (updateGuidance e)) = velocity (telemetry e)"
  "thrust (telemetry (updateGuidance e)) = thrust (telemetry e)"
  "mass (telemetry (updateGuidance e)) = mass (telemetry e)"
  "maxQ (telemetry (updateGuidance e)) = maxQ (telemetry e)"
  "dynamicPressure (telemetry (updateGuidance e)) = dynamicPressure (telemetry e)"
  "propellantRemaining (telemetry (updateGuidance e)) = propellantRemaining (telemetry e)"
  "stage1BurnTime (telemetry (updateGuidance e)) = stage1BurnTime (telemetry e)"
  "stage2BurnTime (telemetry (updateGuidance e)) = stage2BurnTime (telemetry e)"
  "stage1FuelRemaining (telemetry (updateGuidance e)) = stage1FuelRemaining (telemetry e)"
  "stage2FuelRemaining (telemetry (updateGuidance e)) = stage2FuelRemaining (telemetry e)"
  "engineThrottle (telemetry (updateGuidance e)) = engineThrottle (telemetry e)"
  by (simp_all add: updateGuidance_def Let_def)

lemma updateGuidance_throttle:
  "throttleLevel (state (updateGuidance e)) =
     (if dynamicPressure (telemetry e) > 35000 \<and> stageNumber (state e) = 1 then 70
      else if dynamicPressure (telemetry e) < 25000 \<and> throttleLevel (state e) < 100 then 100
      else throttleLevel (state e))"
  by (auto simp add: updateGuidance_def Let_def)

lemma simulateAscent_frame [simp]:
  "pendingTimers (simulateAscent e) = pendingTimers e"
  "phase (state (simulateAscent e)) = phase (state e)"
  "stageNumber (state (simulateAscent e)) = stageNumber (state e)"
  "missionTime (state (simulateAscent e)) = missionTime (state e)"
  "maxQ (telemetry (simulateAscent e)) = maxQ (telemetry e)"
  by (simp_all add: simulateAscent_def Let_def)

lemma simulateAscent_throttle:
  "throttleLevel (state (simulateAscent e)) =
     (if dynamicPressure (telemetry e) > 35000 \<and> stageNumber (state e) = 1 then 70
      else if dynamicPressure (telemetry e) < 25000 \<and> throttleLevel (state e) < 100 then 100
      else throttleLevel (state e))"
  by (simp add: simulateAscent_def updateGuidance_throttle Let_def)

text \<open>The stage that \<^verbatim>\<open>simulateAscent\<close> burns, and the thrust it commands.\<close>

lemma simulateAscent_mass:
  "mass (telemetry (simulateAscent e)) =
     mass (telemetry e) -
       (calculateThrust e (if stageNumber (state e) = 1 then firstStage specs else secondStage specs)
          * (throttleLevel (state e) / 100)
        / (specificImpulse (if stageNumber (state e) = 1 then firstStage specs else secondStage specs)
             * g0 constants)) * 0.1"
  by (simp add: simulateAscent_def Let_def)

lemma simulateAscent_burn:
  "stage1BurnTime (telemetry (simulateAscent e)) =
     (if stageNumber (state e) = 1 then stage1BurnTime (telemetry e) + 0.1
      else stage1BurnTime (telemetry e))"
  "stage2BurnTime (telemetry (simulateAscent e)) =
     (if stageNumber (state e) = 1 then stage2BurnTime (telemetry e)
      else stage2BurnTime (telemetry e) + 0.1)"
  "stage1FuelRemaining (telemetry (simulateAscent e)) =
     (if stageNumber (state e) = 1
      then max 0 (100 * (1 - (stage1BurnTime (telemetry e) + 0.1) / burnTime (firstStage specs)))
      else stage1FuelRemaining (telemetry e))"
  "stage2FuelRemaining (telemetry (simulateAscent e)) =
     (if stageNumber (state e) = 1 then stage2FuelRemaining (telemetry e)
      else max 0 (100 * (1 - (stage2BurnTime (telemetry e) + 0.1) / burnTime (secondStage specs))))"
  "propellantRemaining (telemetry (simulateAscent e)) =
     (if stageNumber (state e) = 1
      then max 0 (100 * (1 - (stage1BurnTime (telemetry e) + 0.1) / burnTime (firstStage specs)))
      else max 0 (100 * (1 - (stage2BurnTime (telemetry e) + 0.1) / burnTime (secondStage specs))))"
  by (simp_all add: simulateAscent_def Let_def)

text \<open>Thrust, velocity and altitude after \<^verbatim>\<open>simulateAscent\<close>, from the state before it.\<close>

lemma simulateAscent_kinematics:
  fixes e
  defines "stage \<equiv> (if stageNumber (state e) = 1 then firstStage specs else secondStage specs)"
  defines "thr \<equiv> calculateThrust e stage * (throttleLevel (state e) / 100)"
  defines "m \<equiv> mass (telemetry e) - (thr / (specificImpulse stage * g0 constants)) * 0.1"
  defines "v \<equiv> velocity (telemetry e) + ((thr - m * getGravity e - calculateDrag e) / m) * 0.1"
  shows "thrust (telemetry (simulateAscent e)) = thr"
    and "velocity (telemetry (simulateAscent e)) = v"
    and "altitude (telemetry (simulateAscent e)) = altitude (telemetry e) + v * 0.1"
  unfolding stage_def thr_def m_def v_def
  by (simp_all add: simulateAscent_def Let_def getGravity_def calculateDrag_def
        calculateThrust_def)

lemma dispatchPhase_cases:
  "phase (state e) = IGNITION \<Longrightarrow> dispatchPhase e = simulateIgnition e"
  "phase (state e) = LAUNCH \<Longrightarrow> dispatchPhase e = simulateAscent e"
  "phase (state e) = ASCENT \<Longrightarrow> dispatchPhase e = simulateAscent e"
  "phase (state e) = MECO \<Longrightarrow> dispatchPhase e = simulateMECO e"
  "phase (state e) = STAGE_SEP \<Longrightarrow> dispatchPhase e = simulateMECO e"
  "phase (state e) = SECOND_STAGE \<Longrightarrow> dispatchPhase e = simulateAscent e"
  "phase (state e) = ABORT \<Longrightarrow> dispatchPhase e = simulateAbort e"
  "phase (state e) = LANDING \<Longrightarrow> dispatchPhase e = simulateLanding e"
  "phase (state e) = ABORTED_STOPPED \<Longrightarrow> dispatchPhase e = e"
  by (simp_all add: dispatchPhase_def simulateStageSeparation_def simulateSecondStage_def)

lemma simulateIgnition_frame [simp]:
  "maxQ (telemetry (simulateIgnition e)) = maxQ (telemetry e)"
  "propellantRemaining (telemetry (simulateIgnition e)) = propellantRemaining (telemetry e)"
  "stage1BurnTime (telemetry (simulateIgnition e)) = stage1BurnTime (telemetry e)"
  "stage2BurnTime (telemetry (simulateIgnition e)) = stage2BurnTime (telemetry e)"
  "missionTime (state (simulateIgnition e)) = missionTime (state e)"
  by (simp_all add: simulateIgnition_def Let_def)

lemma simulateMECO_frame [simp]:
  "state (simulateMECO e) = state e"
  "maxQ (telemetry (simulateMECO e)) = maxQ (telemetry e)"
  "propellantRemaining (telemetry (simulateMECO e)) = propellantRemaining (telemetry e)"
  "stage1BurnTime (telemetry (simulateMECO e)) = stage1BurnTime (telemetry e)"
  "stage2BurnTime (telemetry (simulateMECO e)) = stage2BurnTime (telemetry e)"
  by (simp_all add: simulateMECO_def Let_def)

lemmas push_if =
  if_distrib [of telemetry] if_distrib [of state] if_distrib [of thrust] if_distrib [of maxQ]
  if_distrib [of stage1BurnTime] if_distrib [of stage2BurnTime] if_distrib [of missionTime]
  if_distrib [of propellantRemaining] if_distrib [of altitude] if_distrib [of velocity]
  if_distrib [of phase] if_distrib [of mass] if_distrib [of engineStatus]
  if_distrib [of stageNumber] if_distrib [of dynamicPressure]

lemma simulateAbort_frame [simp]:
  "thrust (telemetry (simulateAbort e)) = 0"
  "maxQ (telemetry (simulateAbort e)) = maxQ (telemetry e)"
  "stage1BurnTime (telemetry (simulateAbort e)) = stage1BurnTime (telemetry e)"
  "stage2BurnTime (telemetry (simulateAbort e)) = stage2BurnTime (telemetry e)"
  "missionTime (state (simulateAbort e)) = missionTime (state e)"
  by (simp_all add: simulateAbort_def Let_def push_if
        split del: if_split cong del: if_weak_cong)

lemma simulateAbort_propellant:
  "propellantRemaining (telemetry (simulateAbort e)) =
     (if altitude (telemetry e) \<le> 0 \<and> velocity (telemetry e) \<le> 0
      then propellantRemaining (telemetry e)
      else max 0 (propellantRemaining (telemetry e) * 0.95))"
  by (simp add: simulateAbort_def Let_def push_if
        split del: if_split cong del: if_weak_cong)

text \<open>The altitude that the decay of one abort tick leaves, before the crash check.\<close>

lemma simulateAbort_descent:
  fixes e
  defines "a1 \<equiv> max 0 (altitude (telemetry e) * 0.85)"
  defines "a2 \<equiv> (if a1 < 100 then max 0 (a1 * 0.5) else a1)"
  defines "stop \<equiv> (altitude (telemetry e) \<le> 0 \<and> velocity (telemetry e) \<le> 0) \<or> a2 < 1"
  shows "phase (state (simulateAbort e)) = (if stop then ABORTED_STOPPED else phase (state e))"
    and "altitude (telemetry (simulateAbort e)) = (if stop then 0 else a2)"
    and "stop \<Longrightarrow> velocity (telemetry (simulateAbort e)) = 0"
  unfolding a1_def a2_def stop_def
  by (simp_all add: simulateAbort_def Let_def push_if
        split del: if_split cong del: if_weak_cong, auto)

lemma landingPhases_frame [simp]:
  "maxQ (telemetry (landingPhase1 e)) = maxQ (telemetry e)"
  "maxQ (telemetry (landingPhase2 e)) = maxQ (telemetry e)"
  "maxQ (telemetry (landingPhase3 e)) = maxQ (telemetry e)"
  "maxQ (telemetry (landingPhase4 e)) = maxQ (telemetry e)"
  "maxQ (telemetry (landingPhase5 e)) = maxQ (telemetry e)"
  "maxQ (telemetry (landingPhase6 e)) = maxQ (telemetry e)"
  "maxQ (telemetry (landingPhase7 e)) = maxQ (telemetry e)"
  "propellantRemaining (telemetry (landingPhase1 e)) = propellantRemaining (telemetry e)"
  "propellantRemaining (telemetry (landingPhase2 e)) = propellantRemaining (telemetry e)"
  "propellantRemaining (telemetry (landingPhase3 e)) = propellantRemaining (telemetry e)"
  "propellantRemaining (telemetry (landingPhase4 e)) = propellantRemaining (telemetry e)"
  "propellantRemaining (telemetry (landingPhase5 e)) = propellantRemaining (telemetry e)"
  "propellantRemaining (telemetry (landingPhase6 e)) = propellantRemaining (telemetry e)"
  "propellantRemaining (telemetry (landingPhase7 e)) = propellantRemaining (telemetry e)"
  "stage1BurnTime (telemetry (landingPhase1 e)) = stage1BurnTime (telemetry e)"
  "stage1BurnTime (telemetry (landingPhase2 e)) = stage1BurnTime (telemetry e)"
  "stage1BurnTime (telemetry (landingPhase3 e)) = stage1BurnTime (telemetry e)"
  "stage1BurnTime (telemetry (landingPhase4 e)) = stage1BurnTime (telemetry e)"
  "stage1BurnTime (telemetry (landingPhase5 e)) = stage1BurnTime (telemetry e)"
  "stage1BurnTime (telemetry (landingPhase6 e)) = stage1BurnTime (telemetry e)"
  "stage1BurnTime (telemetry (landingPhase7 e)) = stage1BurnTime (telemetry e)"
  "stage2BurnTime (telemetry (landingPhase1 e)) = stage2BurnTime (telemetry e)"
  "stage2BurnTime (telemetry (landingPhase2 e)) = stage2BurnTime (telemetry e)"
  "stage2BurnTime (telemetry (landingPhase3 e)) = stage2BurnTime (telemetry e)"
  "stage2BurnTime (telemetry (landingPhase4 e)) = stage2BurnTime (telemetry e)"
  "stage2BurnTime (telemetry (landingPhase5 e)) = stage2BurnTime (telemetry e)"
  "stage2BurnTime (telemetry (landingPhase6 e)) = stage2BurnTime (telemetry e)"
  "stage2BurnTime (telemetry (landingPhase7 e)) = stage2BurnTime (telemetry e)"
  by (simp_all add: landingPhase1_def landingPhase2_def landingPhase3_def landingPhase4_def
        landingPhase5_def landingPhase6_def landingPhase7_def Let_def)

lemma landingOtherParameters_frame [simp]:
  "state (landingOtherParameters e) = state e"
  "thrust (telemetry (landingOtherParameters e)) = thrust (telemetry e)"
  "maxQ (telemetry (landingOtherParameters e)) = maxQ (telemetry e)"
  "propellantRemaining (telemetry (landingOtherParameters e)) = propellantRemaining (telemetry e)"
  "stage1BurnTime (telemetry (landingOtherParameters e)) = stage1BurnTime (telemetry e)"
  "stage2BurnTime (telemetry (landingOtherParameters e)) = stage2BurnTime (telemetry e)"
  by (simp_all add: landingOtherParameters_def Let_def)

lemma simulateLanding_frame [simp]:
  "maxQ (telemetry (simulateLanding e)) = maxQ (telemetry e)"
  "propellantRemaining (telemetry (simulateLanding e)) = propellantRemaining (telemetry e)"
  "stage1BurnTime (telemetry (simulateLanding e)) = stage1BurnTime (telemetry e)"
  "stage2BurnTime (telemetry (simulateLanding e)) = stage2BurnTime (telemetry e)"
  by (simp_all add: simulateLanding_def)

text \<open>The dispatcher never writes the running maximum or the burn-time accumulators down.\<close>

lemma dispatchPhase_maxQ [simp]:
  "maxQ (telemetry (dispatchPhase e)) = maxQ (telemetry e)"
  by (cases "phase (state e)") (simp_all add: dispatchPhase_cases, simp_all add: dispatchPhase_def)

lemma commands_telemetry [simp]:
  "telemetry (armIgnition e) = telemetry e"
  "telemetry (startIgnitionSequence e) = telemetry e"
  "telemetry (launch e) = telemetry e"
  "telemetry (initiateLanding e) = telemetry e"
  "telemetry (setThrottle level e) = telemetry e"
  "telemetry (timerFires e) = telemetry e"
  "telemetry (abort e) = (telemetry e)\<lparr>thrust := 0\<rparr>"
  "telemetry (separateStage e) =
     (if stageNumber (state e) = 1
      then (telemetry e)\<lparr>mass := dryMass (secondStage specs) +
              propellantMass (secondStage specs) + payload specs\<rparr>
      else telemetry e)"
  by (simp_all add: armIgnition_def startIgnitionSequence_def launch_def initiateLanding_def
        setThrottle_def timerFires_def secondStageIgnition_def abort_def separateStage_def)

section \<open>The tick as a whole\<close>

lemma updateSimulation_absorbing:
  "phase (state e) \<in> {PAD, ORBIT, LANDED} \<Longrightarrow> updateSimulation e = e"
  by (auto simp add: updateSimulation_def)

lemma updateSimulation_unfold:
  "phase (state e) \<notin> {PAD, ORBIT, LANDED} \<Longrightarrow>
   updateSimulation e =
     checkPhaseTransitions (calculateOrbitalParams (updateEnvironment
       (dispatchPhase (advanceMissionTime e))))"
  by (simp add: updateSimulation_def)

section \<open>The abort sequencer under the tick\<close>

lemma updateSimulation_in_ABORT:
  assumes "phase (state e) = ABORT"
  shows "updateSimulation e = calculateOrbitalParams (updateEnvironment (simulateAbort e))"
proof -
  have adv: "advanceMissionTime e = e"
    using assms by (simp add: advanceMissionTime_def)
  have "phase (state (simulateAbort e)) \<notin> {LAUNCH, ASCENT, MECO, SECOND_STAGE}"
    using assms by (simp add: simulateAbort_descent(1))
  then have "checkPhaseTransitions (calculateOrbitalParams (updateEnvironment (simulateAbort e)))
      = calculateOrbitalParams (updateEnvironment (simulateAbort e))"
    by (intro checkPhaseTransitions_idle) simp
  with assms adv show ?thesis
    by (simp add: updateSimulation_unfold dispatchPhase_cases)
qed

lemma updateSimulation_in_ABORTED_STOPPED:
  assumes "phase (state e) = ABORTED_STOPPED"
  shows "updateSimulation e =
           calculateOrbitalParams (updateEnvironment (advanceMissionTime e))"
proof -
  have "checkPhaseTransitions (calculateOrbitalParams (updateEnvironment (advanceMissionTime e)))
      = calculateOrbitalParams (updateEnvironment (advanceMissionTime e))"
    using assms by (intro checkPhaseTransitions_idle) simp
  with assms show ?thesis
    by (simp add: updateSimulation_unfold dispatchPhase_cases)
qed

text \<open>Thrust stays cut: the pair of abort phases with zero thrust is closed under the tick.\<close>

lemma abort_thrust_step:
  assumes "phase (state e) = ABORT \<or> phase (state e) = ABORTED_STOPPED"
    and "thrust (telemetry e) = 0"
  shows "(phase (state (updateSimulation e)) = ABORT
            \<or> phase (state (updateSimulation e)) = ABORTED_STOPPED)
         \<and> thrust (telemetry (updateSimulation e)) = 0"
  using assms
  by (auto simp add: updateSimulation_in_ABORT updateSimulation_in_ABORTED_STOPPED
        simulateAbort_descent(1))

lemma abort_thrust_iterate:
  assumes "phase (state e) = ABORT \<or> phase (state e) = ABORTED_STOPPED"
    and "thrust (telemetry e) = 0"
  shows "(phase (state ((updateSimulation ^^ n) e)) = ABORT
            \<or> phase (state ((updateSimulation ^^ n) e)) = ABORTED_STOPPED)
         \<and> thrust (telemetry ((updateSimulation ^^ n) e)) = 0"
proof (induction n)
  case 0
  from assms show ?case by simp
next
  case (Suc n)
  from abort_thrust_step [of "(updateSimulation ^^ n) e"] Suc.IH show ?case
    by simp
qed

text \<open>
  One tick of the descent from a positive altitude: either the vehicle is stopped, or it is
  still aborting at an altitude of at least 1 m and at most 85 percent of the one before.
\<close>

lemma abort_descent_step:
  assumes "phase (state e) = ABORT" and "0 < altitude (telemetry e)"
  shows "(phase (state (updateSimulation e)) = ABORTED_STOPPED
            \<and> altitude (telemetry (updateSimulation e)) = 0
            \<and> velocity (telemetry (updateSimulation e)) = 0)
         \<or> (phase (state (updateSimulation e)) = ABORT
            \<and> 1 \<le> altitude (telemetry (updateSimulation e))
            \<and> altitude (telemetry (updateSimulation e)) \<le> altitude (telemetry e) * 0.85)"
proof -
  define a1 where "a1 = max 0 (altitude (telemetry e) * 0.85)"
  define a2 where "a2 = (if a1 < 100 then max 0 (a1 * 0.5) else a1)"
  define stop where
    "stop \<longleftrightarrow> (altitude (telemetry e) \<le> 0 \<and> velocity (telemetry e) \<le> 0) \<or> a2 < 1"
  have ph: "phase (state (simulateAbort e)) = (if stop then ABORTED_STOPPED else ABORT)"
    and al: "altitude (telemetry (simulateAbort e)) = (if stop then 0 else a2)"
    and ve: "stop \<Longrightarrow> velocity (telemetry (simulateAbort e)) = 0"
    using assms(1) simulateAbort_descent [of e]
    unfolding a1_def a2_def stop_def by simp_all
  have a1: "a1 = altitude (telemetry e) * 0.85"
    using assms(2) by (simp add: a1_def)
  have a2: "a2 \<le> a1"
    using assms(2) by (simp add: a2_def a1)
  show ?thesis
  proof (cases stop)
    case True
    with ph al ve assms(1) show ?thesis
      by (simp add: updateSimulation_in_ABORT)
  next
    case False
    then have "1 \<le> a2"
      by (simp add: stop_def)
    with False ph al a1 a2 assms(1) show ?thesis
      by (simp add: updateSimulation_in_ABORT)
  qed
qed

lemma abort_descent_terminates:
  assumes "phase (state e) = ABORT" and "0 < altitude (telemetry e)"
    and "altitude (telemetry e) * 0.85 ^ k < 1"
  shows "\<exists>n. phase (state ((updateSimulation ^^ n) e)) = ABORTED_STOPPED
             \<and> altitude (telemetry ((updateSimulation ^^ n) e)) = 0
             \<and> velocity (telemetry ((updateSimulation ^^ n) e)) = 0"
  using assms
proof (induction k arbitrary: e)
  case 0
  from abort_descent_step [OF "0.prems"(1,2)] "0.prems"(2,3)
  have "phase (state (updateSimulation e)) = ABORTED_STOPPED
          \<and> altitude (telemetry (updateSimulation e)) = 0
          \<and> velocity (telemetry (updateSimulation e)) = 0"
    by auto
  then have "phase (state ((updateSimulation ^^ 1) e)) = ABORTED_STOPPED
          \<and> altitude (telemetry ((updateSimulation ^^ 1) e)) = 0
          \<and> velocity (telemetry ((updateSimulation ^^ 1) e)) = 0"
    by simp
  then show ?case
    by blast
next
  case (Suc k)
  from abort_descent_step [OF Suc.prems(1,2)] show ?case
  proof
    assume "phase (state (updateSimulation e)) = ABORTED_STOPPED
          \<and> altitude (telemetry (updateSimulation e)) = 0
          \<and> velocity (telemetry (updateSimulation e)) = 0"
    then have "phase (state ((updateSimulation ^^ 1) e)) = ABORTED_STOPPED
          \<and> altitude (telemetry ((updateSimulation ^^ 1) e)) = 0
          \<and> velocity (telemetry ((updateSimulation ^^ 1) e)) = 0"
      by simp
    then show ?thesis
      by blast
  next
    assume still: "phase (state (updateSimulation e)) = ABORT
          \<and> 1 \<le> altitude (telemetry (updateSimulation e))
          \<and> altitude (telemetry (updateSimulation e)) \<le> altitude (telemetry e) * 0.85"
    have "altitude (telemetry (updateSimulation e)) * 0.85 ^ k
            \<le> (altitude (telemetry e) * 0.85) * 0.85 ^ k"
      using still by (intro mult_right_mono) simp_all
    then have "altitude (telemetry (updateSimulation e)) * 0.85 ^ k
            \<le> altitude (telemetry e) * 0.85 ^ Suc k"
      by (simp add: mult.assoc)
    from this Suc.prems(3)
    have small: "altitude (telemetry (updateSimulation e)) * 0.85 ^ k < 1"
      by (rule le_less_trans)
    from still have "0 < altitude (telemetry (updateSimulation e))"
      by simp
    from Suc.IH [OF _ this small] still
    obtain n where "phase (state ((updateSimulation ^^ n) (updateSimulation e))) = ABORTED_STOPPED
             \<and> altitude (telemetry ((updateSimulation ^^ n) (updateSimulation e))) = 0
             \<and> velocity (telemetry ((updateSimulation ^^ n) (updateSimulation e))) = 0"
      by blast
    then have "phase (state ((updateSimulation ^^ Suc n) e)) = ABORTED_STOPPED
             \<and> altitude (telemetry ((updateSimulation ^^ Suc n) e)) = 0
             \<and> velocity (telemetry ((updateSimulation ^^ Suc n) e)) = 0"
      by (simp add: funpow_swap1)
    then show ?thesis
      by blast
  qed
qed

text \<open>No tick of the abort sequencer schedules or runs a timer callback.\<close>

lemma abort_pendingTimers:
  assumes "phase (state e) = ABORT \<or> phase (state e) = ABORTED_STOPPED"
  shows "pendingTimers (updateSimulation e) = pendingTimers e"
proof -
  have "pendingTimers (simulateAbort e) = pendingTimers e"
    by (simp add: simulateAbort_def Let_def if_distrib [of pendingTimers]
          split del: if_split cong del: if_weak_cong)
  with assms show ?thesis
    by (auto simp add: updateSimulation_in_ABORT updateSimulation_in_ABORTED_STOPPED)
qed

lemma abort_pendingTimers_iterate:
  assumes "phase (state e) = ABORT \<or> phase (state e) = ABORTED_STOPPED"
    and "thrust (telemetry e) = 0"
  shows "pendingTimers ((updateSimulation ^^ n) e) = pendingTimers e"
proof (induction n)
  case 0
  show ?case by simp
next
  case (Suc n)
  from abort_thrust_iterate [OF assms, of n]
  have "pendingTimers (updateSimulation ((updateSimulation ^^ n) e))
          = pendingTimers ((updateSimulation ^^ n) e)"
    by (intro abort_pendingTimers) simp
  with Suc.IH show ?case
    by simp
qed

text \<open>
  The second stage, lit with the vehicle standing on the pad: the tick ends in
  \<open>SECOND_STAGE\<close> under full thrust.
\<close>

lemma second_stage_on_the_pad:
  assumes ph: "phase (state x) = SECOND_STAGE" and st: "stageNumber (state x) = 2"
    and th: "throttleLevel (state x) = 100"
    and tel: "telemetry x = initialTelemetry\<lparr>mass := 138300, thrust := 0\<rparr>"
  shows "phase (state (updateSimulation x)) = SECOND_STAGE"
    and "thrust (telemetry (updateSimulation x)) = 934000"
proof -
  let ?d = "simulateAscent (advanceMissionTime x)"
  have tick: "updateSimulation x =
      checkPhaseTransitions (calculateOrbitalParams (updateEnvironment ?d))"
    using ph by (simp add: updateSimulation_unfold dispatchPhase_cases)
  have thr: "thrust (telemetry ?d) = 934000"
    unfolding simulateAscent_kinematics
    by (simp add: st th calculateThrust_def specs_def)
  have fuel: "0 < stage2FuelRemaining (telemetry ?d)"
    by (simp add: simulateAscent_burn st tel initialTelemetry_def specs_def)
  have vel: "velocity (telemetry ?d) < 7660"
    unfolding simulateAscent_kinematics
    by (simp add: st th tel calculateThrust_def getGravity_def calculateDrag_def
          initialTelemetry_def specs_def constants_def)
  have alt: "altitude (telemetry ?d) < 400000"
    unfolding simulateAscent_kinematics
    by (simp add: st th tel calculateThrust_def getGravity_def calculateDrag_def
          initialTelemetry_def specs_def constants_def)
  have "checkPhaseTransitions (calculateOrbitalParams (updateEnvironment ?d))
          = calculateOrbitalParams (updateEnvironment ?d)"
    using ph fuel vel alt
    by (simp add: checkPhaseTransitions_def mission_def Let_def)
  with tick ph thr show "phase (state (updateSimulation x)) = SECOND_STAGE"
    and "thrust (telemetry (updateSimulation x)) = 934000"
    by simp_all
qed

section \<open>Propellant percentage and burn time\<close>

text \<open>
  The propellant percentage stays in range as long as the burn-time accumulators are not
  negative, and the accumulators only grow: \<open>propellantInRange\<close> holds along every run.
\<close>

lemma propellantInRange_telemetry:
  "propellantRemaining (telemetry e') = propellantRemaining (telemetry e) \<Longrightarrow>
   stage1BurnTime (telemetry e') = stage1BurnTime (telemetry e) \<Longrightarrow>
   stage2BurnTime (telemetry e') = stage2BurnTime (telemetry e) \<Longrightarrow>
   propellantInRange e' = propellantInRange e"
  by (simp add: propellantInRange_def)

lemma simulateAscent_propellantInRange:
  assumes "propellantInRange e"
  shows "propellantInRange (simulateAscent e)"
proof -
  have s1: "max 0 (100 * (1 - (stage1BurnTime (telemetry e) + 0.1) / 162)) \<le> (100::real)"
    using assms by (simp add: propellantInRange_def)
  have s2: "max 0 (100 * (1 - (stage2BurnTime (telemetry e) + 0.1) / 397)) \<le> (100::real)"
    using assms by (simp add: propellantInRange_def)
  from assms s1 s2 show ?thesis
    by (simp add: propellantInRange_def simulateAscent_burn specs_def)
qed

lemma simulateAbort_propellantInRange:
  assumes "propellantInRange e"
  shows "propellantInRange (simulateAbort e)"
proof -
  have "max 0 (propellantRemaining (telemetry e) * 0.95) \<le> 100"
    using assms by (simp add: propellantInRange_def)
  with assms show ?thesis
    by (simp add: propellantInRange_def simulateAbort_propellant)
qed

lemma dispatchPhase_propellantInRange:
  assumes "propellantInRange e"
  shows "propellantInRange (dispatchPhase e)"
proof (cases "phase (state e)")
  case IGNITION
  with assms show ?thesis
    by (simp add: dispatchPhase_cases propellantInRange_def)
next
  case LAUNCH
  with assms show ?thesis
    by (simp add: dispatchPhase_cases simulateAscent_propellantInRange)
next
  case ASCENT
  with assms show ?thesis
    by (simp add: dispatchPhase_cases simulateAscent_propellantInRange)
next
  case MECO
  with assms show ?thesis
    by (simp add: dispatchPhase_cases propellantInRange_def)
next
  case STAGE_SEP
  with assms show ?thesis
    by (simp add: dispatchPhase_cases propellantInRange_def)
next
  case SECOND_STAGE
  with assms show ?thesis
    by (simp add: dispatchPhase_cases simulateAscent_propellantInRange)
next
  case ABORT
  with assms show ?thesis
    by (simp add: dispatchPhase_cases simulateAbort_propellantInRange)
next
  case LANDING
  with assms show ?thesis
    by (simp add: dispatchPhase_cases propellantInRange_def)
qed (use assms in \<open>simp_all add: dispatchPhase_def\<close>)

lemma updateSimulation_propellantInRange:
  assumes "propellantInRange e"
  shows "propellantInRange (updateSimulation e)"
proof (cases "phase (state e) \<in> {PAD, ORBIT, LANDED}")
  case True
  with assms show ?thesis
    by (simp add: updateSimulation_absorbing)
next
  case False
  have "propellantInRange (advanceMissionTime e)"
    using assms by (simp add: propellantInRange_def)
  then have "propellantInRange (dispatchPhase (advanceMissionTime e))"
    by (rule dispatchPhase_propellantInRange)
  then show ?thesis
    by (simp add: updateSimulation_unfold [OF False] propellantInRange_def)
qed

lemma applyEvent_propellantInRange:
  assumes "propellantInRange e"
  shows "propellantInRange (applyEvent ev e)"
proof (cases ev)
  case EvUpdateSimulation
  with assms show ?thesis
    by (simp add: updateSimulation_propellantInRange)
next
  case EvCheckAnomalies
  with assms show ?thesis
    by (simp add: checkAnomalies_def Let_def)
qed (use assms in \<open>simp_all add: propellantInRange_def\<close>)

lemma run_propellantInRange:
  "propellantInRange e \<Longrightarrow> propellantInRange (run evs e)"
  by (induction evs arbitrary: e) (simp_all add: applyEvent_propellantInRange)

lemma newRocketSimulator_propellantInRange:
  "propellantInRange newRocketSimulator"
  by (simp add: propellantInRange_def constructor_defs)

text \<open>What a tick of powered flight leaves in the burn time and the propellant percentage.\<close>

lemma updateSimulation_powered:
  assumes "phase (state e) = LAUNCH \<or> phase (state e) = ASCENT \<or> phase (state e) = SECOND_STAGE"
  shows "propellantRemaining (telemetry (updateSimulation e))
           = propellantRemaining (telemetry (simulateAscent e))"
    and "stage1BurnTime (telemetry (updateSimulation e))
           = stage1BurnTime (telemetry (simulateAscent e))"
    and "stage2BurnTime (telemetry (updateSimulation e))
           = stage2BurnTime (telemetry (simulateAscent e))"
  using assms
  by (auto simp add: updateSimulation_unfold dispatchPhase_cases simulateAscent_burn)

section \<open>The running maximum of the dynamic pressure\<close>

lemma updateEnvironment_dynamicPressure:
  "dynamicPressure (telemetry (updateEnvironment e)) =
     (if altitude (telemetry e) < atmosphereHeight constants
      then 0.5 * (airDensitySeaLevel constants * exp (- altitude (telemetry e) / 8000))
             * velocity (telemetry e) * velocity (telemetry e)
      else 0)"
  by (simp add: updateEnvironment_def Let_def)

lemma updateEnvironment_maxQ:
  "maxQ (telemetry (updateEnvironment e)) =
     (if altitude (telemetry e) < atmosphereHeight constants
      then max (maxQ (telemetry e)) (dynamicPressure (telemetry (updateEnvironment e)))
      else maxQ (telemetry e))"
  unfolding updateEnvironment_dynamicPressure
  by (simp add: updateEnvironment_def Let_def max_def)

lemma updateEnvironment_dynamicPressure_nonneg:
  "0 \<le> dynamicPressure (telemetry (updateEnvironment e))"
  by (simp add: updateEnvironment_dynamicPressure constants_def mult.assoc)

lemma updateEnvironment_maxQ_max:
  assumes "0 \<le> maxQ (telemetry e)"
  shows "maxQ (telemetry (updateEnvironment e)) =
           max (maxQ (telemetry e)) (dynamicPressure (telemetry (updateEnvironment e)))"
proof (cases "altitude (telemetry e) < atmosphereHeight constants")
  case True
  then show ?thesis
    by (simp add: updateEnvironment_maxQ)
next
  case False
  then have "dynamicPressure (telemetry (updateEnvironment e)) = 0"
    by (simp add: updateEnvironment_dynamicPressure)
  with False assms show ?thesis
    by (simp add: updateEnvironment_maxQ)
qed

lemma updateSimulation_maxQ:
  "phase (state e) \<notin> {PAD, ORBIT, LANDED} \<Longrightarrow>
   maxQ (telemetry (updateSimulation e)) =
     maxQ (telemetry (updateEnvironment (dispatchPhase (advanceMissionTime e))))"
  by (simp add: updateSimulation_unfold)

lemma updateSimulation_maxQ_mono:
  "maxQ (telemetry e) \<le> maxQ (telemetry (updateSimulation e))"
proof (cases "phase (state e) \<in> {PAD, ORBIT, LANDED}")
  case True
  then show ?thesis
    by (simp add: updateSimulation_absorbing)
next
  case False
  have "maxQ (telemetry (dispatchPhase (advanceMissionTime e)))
          \<le> maxQ (telemetry (updateEnvironment (dispatchPhase (advanceMissionTime e))))"
    by (simp add: updateEnvironment_maxQ)
  then show ?thesis
    by (simp add: updateSimulation_maxQ [OF False])
qed

lemma applyEvent_maxQ_other:
  "ev \<noteq> EvUpdateSimulation \<Longrightarrow> maxQ (telemetry (applyEvent ev e)) = maxQ (telemetry e)"
  by (cases ev) (simp_all add: checkAnomalies_def Let_def)

lemma observedQ_other:
  "ev \<noteq> EvUpdateSimulation \<Longrightarrow> observedQ (ev # evs) e = observedQ evs (applyEvent ev e)"
  by (cases ev) simp_all

lemma run_maxQ_fold:
  "0 \<le> maxQ (telemetry e) \<Longrightarrow>
   maxQ (telemetry (run evs e)) = fold max (observedQ evs e) (maxQ (telemetry e))"
proof (induction evs arbitrary: e)
  case Nil
  then show ?case by simp
next
  case (Cons ev evs)
  show ?case
  proof (cases "ev = EvUpdateSimulation")
    case False
    with Cons.prems have "0 \<le> maxQ (telemetry (applyEvent ev e))"
      by (simp add: applyEvent_maxQ_other)
    from Cons.IH [OF this] False show ?thesis
      by (simp add: applyEvent_maxQ_other observedQ_other)
  next
    case tick: True
    have nonneg: "0 \<le> maxQ (telemetry (updateSimulation e))"
      using Cons.prems updateSimulation_maxQ_mono [of e] by simp
    show ?thesis
    proof (cases "phase (state e) \<in> {PAD, ORBIT, LANDED}")
      case True
      then have "updateSimulation e = e"
        by (rule updateSimulation_absorbing)
      with True tick Cons.IH [OF Cons.prems] show ?thesis
        by auto
    next
      case False
      have "0 \<le> maxQ (telemetry (dispatchPhase (advanceMissionTime e)))"
        using Cons.prems by simp
      from updateEnvironment_maxQ_max [OF this]
      have "maxQ (telemetry (updateSimulation e)) =
              max (maxQ (telemetry e))
                (dynamicPressure (telemetry (updateEnvironment
                   (dispatchPhase (advanceMissionTime e)))))"
        by (simp add: updateSimulation_maxQ [OF False])
      with False tick Cons.IH [OF nonneg] show ?thesis
        by (simp add: max.commute)
    qed
  qed
qed

lemma observedQ_nonneg:
  "q \<in> set (observedQ evs e) \<Longrightarrow> 0 \<le> q"
proof (induction evs arbitrary: e)
  case Nil
  then show ?case by simp
next
  case (Cons ev evs)
  show ?case
  proof (cases "ev = EvUpdateSimulation")
    case False
    with Cons show ?thesis
      by (simp add: observedQ_other)
  next
    case True
    with Cons show ?thesis
      by (auto simp add: updateEnvironment_dynamicPressure_nonneg split: if_splits)
  qed
qed

section \<open>The landing sequencer under the tick\<close>

lemma simulateLanding_by_band:
  "phase (state e) \<noteq> LANDED \<Longrightarrow>
   simulateLanding e =
     landingOtherParameters
       (landingBranch (landingBand (altitude (telemetry e)) (landingBurnStarted (state e))) e)"
  by (simp add: simulateLanding_def landingBand_def landingBranch_def)

lemma landingPhases_phase:
  "phase (state (landingPhase1 e)) = phase (state e)"
  "phase (state (landingPhase2 e)) = phase (state e)"
  "phase (state (landingPhase3 e)) = phase (state e)"
  "phase (state (landingPhase4 e)) = phase (state e)"
  "phase (state (landingPhase5 e)) = phase (state e)"
  "phase (state (landingPhase6 e)) = phase (state e)"
  "phase (state (landingPhase7 e)) = LANDED"
  by (simp_all add: landingPhase1_def landingPhase2_def landingPhase3_def landingPhase4_def
        landingPhase5_def landingPhase6_def landingPhase7_def Let_def)

lemma landingBranch_phase:
  "phase (state (landingBranch n e)) = phase (state e)
   \<or> phase (state (landingBranch n e)) = LANDED"
  by (simp add: landingBranch_def landingPhases_phase)

lemma landingPhases_outputs:
  "thrust (telemetry (landingPhase1 e)) = 1800000"
  "engineStatus (state (landingPhase1 e)) = ''RE-ENTRY BURN (3 ENGINES)''"
  "thrust (telemetry (landingPhase4 e)) = 0"
  "engineStatus (state (landingPhase4 e)) = ''PREPARING LANDING BURN''"
  "engineStatus (state (landingPhase6 e)) = ''TOUCHDOWN BURN''"
  by (simp_all add: landingPhase1_def landingPhase4_def landingPhase6_def Let_def)

lemma updateSimulation_in_LANDING:
  assumes "phase (state e) = LANDING"
  shows "updateSimulation e =
           calculateOrbitalParams (updateEnvironment (landingOtherParameters
             (landingBranch (landingBand (altitude (telemetry e)) (landingBurnStarted (state e)))
                e)))"
proof -
  let ?b = "landingBranch (landingBand (altitude (telemetry e)) (landingBurnStarted (state e))) e"
  have adv: "advanceMissionTime e = e"
    using assms by (simp add: advanceMissionTime_def)
  have sim: "simulateLanding e = landingOtherParameters ?b"
    using assms by (simp add: simulateLanding_by_band)
  have "phase (state ?b) \<notin> {LAUNCH, ASCENT, MECO, SECOND_STAGE}"
    using assms landingBranch_phase [of _ e] by (metis insert_iff empty_iff phase.distinct)
  then have "checkPhaseTransitions (calculateOrbitalParams (updateEnvironment
               (landingOtherParameters ?b)))
             = calculateOrbitalParams (updateEnvironment (landingOtherParameters ?b))"
    by (intro checkPhaseTransitions_idle) simp
  with assms adv sim show ?thesis
    by (simp add: updateSimulation_unfold dispatchPhase_cases)
qed

section \<open>Staging and mass\<close>

lemma checkPhaseTransitions_stage:
  "stageNumber (state e) \<noteq> 1 \<Longrightarrow>
   stageNumber (state (checkPhaseTransitions e)) = stageNumber (state e)"
  "stageNumber (state (checkPhaseTransitions e)) = stageNumber (state e) \<Longrightarrow>
   mass (telemetry (checkPhaseTransitions e)) = mass (telemetry e)"
  by (auto simp add: checkPhaseTransitions_def separateStage_def Let_def split: if_splits)

text \<open>
  At first-stage burnout with the mission time beyond 3 s the transition check goes from
  \<open>ASCENT\<close> through \<open>MECO\<close> to \<open>STAGE_SEP\<close> within the one call.
\<close>

lemma checkPhaseTransitions_burnout:
  assumes "phase (state e) = ASCENT" and "stageNumber (state e) = 1"
    and "burnTime (firstStage specs) \<le> stage1BurnTime (telemetry e)"
    and "3 < missionTime (state e)"
  shows "phase (state (checkPhaseTransitions e)) = STAGE_SEP"
    and "stageNumber (state (checkPhaseTransitions e)) = 2"
    and "mass (telemetry (checkPhaseTransitions e)) =
           dryMass (secondStage specs) + propellantMass (secondStage specs) + payload specs"
  using assms by (simp_all add: checkPhaseTransitions_def separateStage_def Let_def)

lemma updateSimulation_burnout:
  assumes "phase (state e) = ASCENT" and "stageNumber (state e) = 1"
    and "burnTime (firstStage specs) \<le> stage1BurnTime (telemetry e) + 0.1"
    and "3 < missionTime (state e) + 0.1"
  shows "phase (state (calculateOrbitalParams (updateEnvironment
           (dispatchPhase (advanceMissionTime e))))) = ASCENT"
    and "phase (state (updateSimulation e)) = STAGE_SEP"
    and "stageNumber (state (updateSimulation e)) = 2"
    and "mass (telemetry (updateSimulation e)) =
           dryMass (secondStage specs) + propellantMass (secondStage specs) + payload specs"
    and "missionTime (state (updateSimulation e)) = missionTime (state e) + 0.1"
proof -
  let ?d = "calculateOrbitalParams (updateEnvironment (simulateAscent (advanceMissionTime e)))"
  have tick: "updateSimulation e = checkPhaseTransitions ?d"
    and disp: "dispatchPhase (advanceMissionTime e) = simulateAscent (advanceMissionTime e)"
    using assms(1) by (simp_all add: updateSimulation_unfold dispatchPhase_cases)
  have ph: "phase (state ?d) = ASCENT" and st: "stageNumber (state ?d) = 1"
    using assms(1,2) by simp_all
  have bt: "burnTime (firstStage specs) \<le> stage1BurnTime (telemetry ?d)"
    using assms(2,3) by (simp add: simulateAscent_burn)
  have mt: "3 < missionTime (state ?d)"
    using assms(1,4) by (simp add: advanceMissionTime_time)
  show "phase (state (calculateOrbitalParams (updateEnvironment
           (dispatchPhase (advanceMissionTime e))))) = ASCENT"
    using ph by (simp add: disp)
  show "phase (state (updateSimulation e)) = STAGE_SEP"
    and "stageNumber (state (updateSimulation e)) = 2"
    and "mass (telemetry (updateSimulation e)) =
           dryMass (secondStage specs) + propellantMass (secondStage specs) + payload specs"
    unfolding tick by (rule checkPhaseTransitions_burnout [OF ph st bt mt])+
  show "missionTime (state (updateSimulation e)) = missionTime (state e) + 0.1"
    using assms(1) by (simp add: tick advanceMissionTime_time)
qed

section \<open>Throttle and the mass flow of powered flight\<close>

lemma throttle_frames [simp]:
  "throttleLevel (state (simulateIgnition e)) = throttleLevel (state e)"
  "throttleLevel (state (simulateAbort e)) = throttleLevel (state e)"
  "throttleLevel (state (landingPhase1 e)) = throttleLevel (state e)"
  "throttleLevel (state (landingPhase2 e)) = throttleLevel (state e)"
  "throttleLevel (state (landingPhase3 e)) = throttleLevel (state e)"
  "throttleLevel (state (landingPhase4 e)) = throttleLevel (state e)"
  "throttleLevel (state (landingPhase5 e)) = throttleLevel (state e)"
  "throttleLevel (state (landingPhase6 e)) = throttleLevel (state e)"
  "throttleLevel (state (landingPhase7 e)) = throttleLevel (state e)"
  "throttleLevel (state (armIgnition e)) = throttleLevel (state e)"
  "throttleLevel (state (startIgnitionSequence e)) = throttleLevel (state e)"
  "throttleLevel (state (launch e)) = throttleLevel (state e)"
  "throttleLevel (state (separateStage e)) = throttleLevel (state e)"
  "throttleLevel (state (abort e)) = throttleLevel (state e)"
  "throttleLevel (state (initiateLanding e)) = throttleLevel (state e)"
  "throttleLevel (state (timerFires e)) = throttleLevel (state e)"
  by (simp_all add: simulateIgnition_def simulateAbort_def landingPhase1_def landingPhase2_def
        landingPhase3_def landingPhase4_def landingPhase5_def landingPhase6_def
        landingPhase7_def armIgnition_def startIgnitionSequence_def launch_def
        separateStage_def abort_def initiateLanding_def timerFires_def secondStageIgnition_def
        Let_def push_if if_distrib [of throttleLevel]
        split del: if_split cong del: if_weak_cong)

lemma simulateLanding_throttle [simp]:
  "throttleLevel (state (simulateLanding e)) = throttleLevel (state e)"
  by (simp add: simulateLanding_def)

text \<open>
  A tick of powered flight at a dynamic pressure below 25000 Pa ends with the throttle at
  100, whatever level not above 100 it started with and whichever stage burns.
\<close>

lemma updateSimulation_throttle_restored:
  assumes "phase (state e) = ASCENT \<or> phase (state e) = SECOND_STAGE"
    and "dynamicPressure (telemetry e) < 25000"
    and "throttleLevel (state e) \<le> 100"
  shows "throttleLevel (state (updateSimulation e)) = 100"
proof -
  from assms(1) have tick: "updateSimulation e =
      checkPhaseTransitions (calculateOrbitalParams (updateEnvironment
        (simulateAscent (advanceMissionTime e))))"
    by (auto simp add: updateSimulation_unfold dispatchPhase_cases)
  have "throttleLevel (state (simulateAscent (advanceMissionTime e))) = 100"
    using assms(2,3) by (simp add: simulateAscent_throttle)
  with tick show ?thesis
    by simp
qed

lemma calculateThrust_nonneg:
  "0 \<le> calculateThrust e
          (if stageNumber (state e) = 1 then firstStage specs else secondStage specs)"
  by (simp add: calculateThrust_def specs_def Let_def add_nonneg_nonneg)

text \<open>
  A tick of powered flight that leaves the stage number alone takes the propellant flow of
  one time step from the mass, and nothing else.
\<close>

lemma updateSimulation_mass:
  assumes "phase (state e) = ASCENT \<or> phase (state e) = SECOND_STAGE"
    and "stageNumber (state (updateSimulation e)) = stageNumber (state e)"
  shows "mass (telemetry (updateSimulation e)) =
     mass (telemetry e) -
       (calculateThrust e (if stageNumber (state e) = 1 then firstStage specs else secondStage specs)
          * (throttleLevel (state e) / 100)
        / (specificImpulse (if stageNumber (state e) = 1 then firstStage specs else secondStage specs)
             * g0 constants)) * 0.1"
proof -
  let ?d = "calculateOrbitalParams (updateEnvironment (simulateAscent (advanceMissionTime e)))"
  have tick: "updateSimulation e = checkPhaseTransitions ?d"
    using assms(1) by (auto simp add: updateSimulation_unfold dispatchPhase_cases)
  have "stageNumber (state ?d) = stageNumber (state e)"
    by simp
  with assms(2) have "stageNumber (state (checkPhaseTransitions ?d)) = stageNumber (state ?d)"
    by (simp add: tick)
  then have "mass (telemetry (checkPhaseTransitions ?d)) = mass (telemetry ?d)"
    by (rule checkPhaseTransitions_stage(2))
  moreover have "calculateThrust (advanceMissionTime e) = calculateThrust e"
    by (simp add: calculateThrust_def fun_eq_iff)
  ultimately show ?thesis
    by (simp add: tick simulateAscent_mass)
qed

lemma updateSimulation_mass_le:
  assumes "phase (state e) = ASCENT \<or> phase (state e) = SECOND_STAGE"
    and "stageNumber (state (updateSimulation e)) = stageNumber (state e)"
    and "0 \<le> throttleLevel (state e)"
  shows "mass (telemetry (updateSimulation e)) \<le> mass (telemetry e)"
proof -
  let ?stage = "if stageNumber (state e) = 1 then firstStage specs else secondStage specs"
  have den: "0 \<le> specificImpulse ?stage * g0 constants"
    by (simp add: specs_def constants_def)
  have num: "0 \<le> calculateThrust e ?stage * (throttleLevel (state e) / 100)"
    using calculateThrust_nonneg [of e] assms(3) by simp
  have "0 \<le> calculateThrust e ?stage * (throttleLevel (state e) / 100)
               / (specificImpulse ?stage * g0 constants)"
    by (rule divide_nonneg_nonneg [OF num den])
  then have "0 \<le> (calculateThrust e ?stage * (throttleLevel (state e) / 100)
               / (specificImpulse ?stage * g0 constants)) * 0.1"
    by simp
  with updateSimulation_mass [OF assms(1,2)] show ?thesis
    by linarith
qed

section \<open>The phase \<open>MECO\<close> along a run\<close>

lemma burnClock_frames [simp]:
  "stage1FuelRemaining (telemetry (simulateIgnition e)) = stage1FuelRemaining (telemetry e)"
  "stage1FuelRemaining (telemetry (simulateMECO e)) = stage1FuelRemaining (telemetry e)"
  "stage1FuelRemaining (telemetry (simulateAbort e)) = stage1FuelRemaining (telemetry e)"
  "stage1FuelRemaining (telemetry (checkPhaseTransitions e)) = stage1FuelRemaining (telemetry e)"
  "missionTime (state (armIgnition e)) = missionTime (state e)"
  "missionTime (state (startIgnitionSequence e)) = missionTime (state e)"
  "missionTime (state (launch e)) = missionTime (state e)"
  "missionTime (state (separateStage e)) = missionTime (state e)"
  "missionTime (state (abort e)) = missionTime (state e)"
  "missionTime (state (initiateLanding e)) = missionTime (state e)"
  "missionTime (state (setThrottle level e)) = missionTime (state e)"
  "missionTime (state (timerFires e)) = missionTime (state e)"
  by (simp_all add: simulateIgnition_def simulateMECO_def simulateAbort_def
        checkPhaseTransitions_def armIgnition_def startIgnitionSequence_def launch_def
        separateStage_def abort_def initiateLanding_def setThrottle_def timerFires_def
        secondStageIgnition_def Let_def push_if if_distrib [of stage1FuelRemaining]
        split del: if_split cong del: if_weak_cong)

lemma landingBranch_frames [simp]:
  "missionTime (state (landingBranch n e)) = missionTime (state e)"
  "stage1BurnTime (telemetry (landingBranch n e)) = stage1BurnTime (telemetry e)"
  "stage1FuelRemaining (telemetry (landingBranch n e)) = stage1FuelRemaining (telemetry e)"
  by (simp_all add: landingBranch_def landingPhase1_def landingPhase2_def landingPhase3_def
        landingPhase4_def landingPhase5_def landingPhase6_def landingPhase7_def Let_def)

lemma landingOtherParameters_fuel [simp]:
  "stage1FuelRemaining (telemetry (landingOtherParameters e)) = stage1FuelRemaining (telemetry e)"
  by (simp add: landingOtherParameters_def Let_def)

lemma commands_phase:
  "phase (state (armIgnition e)) = phase (state e)"
  "phase (state (startIgnitionSequence e)) = phase (state e)
     \<or> phase (state (startIgnitionSequence e)) = IGNITION"
  "phase (state (launch e)) = phase (state e) \<or> phase (state (launch e)) = LAUNCH"
  "phase (state (separateStage e)) = phase (state e)
     \<or> phase (state (separateStage e)) = STAGE_SEP"
  "phase (state (abort e)) = ABORT"
  "phase (state (initiateLanding e)) = LANDING"
  "phase (state (setThrottle level e)) = phase (state e)"
  "phase (state (timerFires e)) = phase (state e)
     \<or> phase (state (timerFires e)) = SECOND_STAGE"
  "phase (state (simulateIgnition e)) = phase (state e)
     \<or> phase (state (simulateIgnition e)) = LAUNCH"
  by (simp_all add: armIgnition_def startIgnitionSequence_def launch_def separateStage_def
        abort_def initiateLanding_def setThrottle_def timerFires_def secondStageIgnition_def
        simulateIgnition_def Let_def)

text \<open>
  If burnout implies a mission time beyond 3 s, the transition check does not stop at
  \<open>MECO\<close>.
\<close>

lemma checkPhaseTransitions_skips_MECO:
  assumes "phase (state e) \<noteq> MECO"
    and "stage1FuelRemaining (telemetry e) \<le> 0
           \<or> burnTime (firstStage specs) \<le> stage1BurnTime (telemetry e)
         \<Longrightarrow> 3 < missionTime (state e)"
  shows "phase (state (checkPhaseTransitions e)) \<noteq> MECO"
  using assms
  by (auto simp add: checkPhaseTransitions_def separateStage_def Let_def split: if_splits)

lemma dispatchPhase_burnClock:
  assumes "burnClock e"
  shows "burnClock (dispatchPhase (advanceMissionTime e))"
proof (cases "phase (state e)")
  case IGNITION
  with assms commands_phase(9) [of "advanceMissionTime e"] show ?thesis
    by (auto simp add: burnClock_def dispatchPhase_cases advanceMissionTime_time)
next
  case LAUNCH
  with assms show ?thesis
    by (auto simp add: burnClock_def dispatchPhase_cases advanceMissionTime_time
          simulateAscent_burn specs_def)
next
  case ASCENT
  with assms show ?thesis
    by (auto simp add: burnClock_def dispatchPhase_cases advanceMissionTime_time
          simulateAscent_burn specs_def)
next
  case MECO
  with assms show ?thesis
    by (simp add: burnClock_def)
next
  case STAGE_SEP
  with assms show ?thesis
    by (auto simp add: burnClock_def dispatchPhase_cases advanceMissionTime_time)
next
  case SECOND_STAGE
  with assms show ?thesis
    by (auto simp add: burnClock_def dispatchPhase_cases advanceMissionTime_time
          simulateAscent_burn specs_def)
next
  case ABORT
  with assms show ?thesis
    by (auto simp add: burnClock_def dispatchPhase_cases advanceMissionTime_time
          simulateAbort_descent(1))
next
  case LANDING
  then have "phase (state (advanceMissionTime e)) \<noteq> LANDED"
    by simp
  note sim = simulateLanding_by_band [OF this]
  from LANDING landingBranch_phase [of _ "advanceMissionTime e"]
  have "phase (state (simulateLanding (advanceMissionTime e))) \<noteq> MECO"
    unfolding sim by (metis advanceMissionTime_frame(3) landingOtherParameters_frame(1)
        phase.distinct)
  with LANDING assms show ?thesis
    unfolding burnClock_def
    by (simp add: dispatchPhase_cases advanceMissionTime_time sim)
next
  case PAD
  with assms show ?thesis
    by (auto simp add: burnClock_def dispatchPhase_def advanceMissionTime_time)
next
  case ORBIT
  with assms show ?thesis
    by (auto simp add: burnClock_def dispatchPhase_def advanceMissionTime_time)
next
  case LANDED
  with assms show ?thesis
    by (auto simp add: burnClock_def dispatchPhase_def advanceMissionTime_time)
next
  case ABORTED_STOPPED
  with assms show ?thesis
    by (auto simp add: burnClock_def dispatchPhase_def advanceMissionTime_time)
qed

lemma updateSimulation_burnClock:
  assumes "burnClock e"
  shows "burnClock (updateSimulation e)"
proof (cases "phase (state e) \<in> {PAD, ORBIT, LANDED}")
  case True
  with assms show ?thesis
    by (simp add: updateSimulation_absorbing)
next
  case False
  let ?d = "calculateOrbitalParams (updateEnvironment (dispatchPhase (advanceMissionTime e)))"
  from dispatchPhase_burnClock [OF assms] have d: "burnClock ?d"
    by (simp add: burnClock_def)
  then have "stage1FuelRemaining (telemetry ?d) \<le> 0
           \<or> burnTime (firstStage specs) \<le> stage1BurnTime (telemetry ?d)
         \<Longrightarrow> 3 < missionTime (state ?d)"
    by (auto simp add: burnClock_def specs_def)
  with d have "phase (state (checkPhaseTransitions ?d)) \<noteq> MECO"
    by (intro checkPhaseTransitions_skips_MECO) (simp_all add: burnClock_def)
  with d show ?thesis
    by (simp add: updateSimulation_unfold [OF False] burnClock_def)
qed

lemma applyEvent_burnClock:
  assumes "burnClock e"
  shows "burnClock (applyEvent ev e)"
proof (cases ev)
  case EvUpdateSimulation
  with assms show ?thesis
    by (simp add: updateSimulation_burnClock)
next
  case EvCheckAnomalies
  with assms show ?thesis
    by (simp add: checkAnomalies_def Let_def)
next
  case EvStartIgnitionSequence
  with assms commands_phase(2) [of e] show ?thesis
    by (auto simp add: burnClock_def)
next
  case EvLaunch
  with assms commands_phase(3) [of e] show ?thesis
    by (auto simp add: burnClock_def)
next
  case EvSeparateStage
  with assms commands_phase(4) [of e] show ?thesis
    by (auto simp add: burnClock_def)
next
  case EvTimerFires
  with assms commands_phase(8) [of e] show ?thesis
    by (auto simp add: burnClock_def)
qed (use assms in \<open>simp_all add: burnClock_def commands_phase\<close>)

text \<open>
  In no run is \<open>MECO\<close> the phase between two calls: whenever the transition check enters
  \<open>MECO\<close> the mission time is already beyond 3 s, so the same call goes on to
  \<open>STAGE_SEP\<close>.
\<close>

lemma run_burnClock:
  "burnClock e \<Longrightarrow> burnClock (run evs e)"
  by (induction evs arbitrary: e) (simp_all add: applyEvent_burnClock)

lemma MECO_never_observed:
  "phase (state (run evs newRocketSimulator)) \<noteq> MECO"
proof -
  have "burnClock newRocketSimulator"
    by (simp add: burnClock_def constructor_defs)
  then have "burnClock (run evs newRocketSimulator)"
    by (rule run_burnClock)
  then show ?thesis
    by (simp add: burnClock_def)
qed

section \<open>The claims\<close>

text \<open>
  C1. The claim: in \<open>ORBIT\<close>, \<open>LANDED\<close> and \<open>ABORTED_STOPPED\<close> a tick changes nothing,
  the mission time included. The guard at the head of \<^verbatim>\<open>updateSimulation\<close> names \<open>PAD\<close>,
  \<open>ORBIT\<close> and \<open>LANDED\<close> only. After an abort on the pad the first tick stops the vehicle
  (\<open>ABORTED_STOPPED\<close>, mission time still 0); the next tick, taken in \<open>ABORTED_STOPPED\<close>,
  moves the mission time to 0.1, so the flight state is not left unchanged.
\<close>

theorem updateSimulation_ABORTED_STOPPED_advances_missionTime:
  "phase (state (run [EvAbort, EvUpdateSimulation] newRocketSimulator)) = ABORTED_STOPPED
   \<and> missionTime (state (run [EvAbort, EvUpdateSimulation] newRocketSimulator)) = 0
   \<and> missionTime (state (updateSimulation
         (run [EvAbort, EvUpdateSimulation] newRocketSimulator))) = 0.1
   \<and> updateSimulation (run [EvAbort, EvUpdateSimulation] newRocketSimulator)
       \<noteq> run [EvAbort, EvUpdateSimulation] newRocketSimulator"
proof -
  let ?e = "run [EvAbort, EvUpdateSimulation] newRocketSimulator"
  have p: "phase (state ?e) = ABORTED_STOPPED" and t0: "missionTime (state ?e) = 0"
    by (simp_all add: constructor_defs vehicle_defs abort_def updateSimulation_def
          advanceMissionTime_def dispatchPhase_def simulateAbort_def checkPhaseTransitions_def
          calculateOrbitalParams_def updateEnvironment_def Let_def)
  have "missionTime (state (updateSimulation ?e)) = missionTime (state ?e) + 0.1"
    using p by (simp add: updateSimulation_unfold dispatchPhase_cases advanceMissionTime_time)
  then have t1: "missionTime (state (updateSimulation ?e)) = 0.1"
    using t0 by simp
  from t0 t1 have "updateSimulation ?e \<noteq> ?e"
    by auto
  with p t0 t1 show ?thesis
    by blast
qed

text \<open>
  C2. The claim: \<open>MECO\<close> is left for \<open>STAGE_SEP\<close> only once the mission time is at least
  3 s past the time at which \<open>MECO\<close> was entered. The transition check compares the mission
  time itself with 3. The tick below starts in \<open>ASCENT\<close> at mission time 162 with 161.9 s of
  first-stage burn: the phase is still \<open>ASCENT\<close> when the transition check begins and
  \<open>STAGE_SEP\<close>, with stage 2 active, when the tick ends at mission time 162.1, so \<open>MECO\<close> is
  entered and left in the same call, 0 s apart. This is what happens in every run: the burn
  time is never ahead of the mission time, so no call ever returns in phase \<open>MECO\<close>
  (lemma \<open>MECO_never_observed\<close>).
\<close>

theorem separation_in_the_tick_of_MECO:
  "phase (state (withState (\<lambda>s. s\<lparr>missionTime := 162\<rparr>)
      (withTelemetry (\<lambda>t. t\<lparr>stage1BurnTime := 161.9\<rparr>) (inFlight ASCENT 1)))) = ASCENT
   \<and> phase (state (calculateOrbitalParams (updateEnvironment (dispatchPhase (advanceMissionTime
        (withState (\<lambda>s. s\<lparr>missionTime := 162\<rparr>)
          (withTelemetry (\<lambda>t. t\<lparr>stage1BurnTime := 161.9\<rparr>) (inFlight ASCENT 1)))))))) = ASCENT
   \<and> phase (state (updateSimulation (withState (\<lambda>s. s\<lparr>missionTime := 162\<rparr>)
        (withTelemetry (\<lambda>t. t\<lparr>stage1BurnTime := 161.9\<rparr>) (inFlight ASCENT 1))))) = STAGE_SEP
   \<and> stageNumber (state (updateSimulation (withState (\<lambda>s. s\<lparr>missionTime := 162\<rparr>)
        (withTelemetry (\<lambda>t. t\<lparr>stage1BurnTime := 161.9\<rparr>) (inFlight ASCENT 1))))) = 2
   \<and> missionTime (state (updateSimulation (withState (\<lambda>s. s\<lparr>missionTime := 162\<rparr>)
        (withTelemetry (\<lambda>t. t\<lparr>stage1BurnTime := 161.9\<rparr>) (inFlight ASCENT 1))))) = 162.1"
proof -
  let ?e = "withState (\<lambda>s. s\<lparr>missionTime := 162\<rparr>)
              (withTelemetry (\<lambda>t. t\<lparr>stage1BurnTime := 161.9\<rparr>) (inFlight ASCENT 1))"
  have ph: "phase (state ?e) = ASCENT" and st: "stageNumber (state ?e) = 1"
    and bt: "burnTime (firstStage specs) \<le> stage1BurnTime (telemetry ?e) + 0.1"
    and mt: "3 < missionTime (state ?e) + 0.1"
    and mt': "missionTime (state ?e) + 0.1 = 162.1"
    by (simp_all add: withState_def withTelemetry_def inFlight_def constructor_defs specs_def)
  from updateSimulation_burnout [OF ph st bt mt] ph mt' show ?thesis
    by simp
qed

text \<open>
  C3. The claim: a tick in \<open>ASCENT\<close> or \<open>SECOND_STAGE\<close> never raises the mass and never
  takes it below the dry mass of the active stage plus the payload. Neither half holds for
  every such tick. \<^verbatim>\<open>simulateAscent\<close> subtracts the propellant flow and applies no floor: a
  second stage at 26800 kg (its dry mass plus the payload) is at less than that after one
  tick. And a tick in \<open>ASCENT\<close> that reaches first-stage burnout runs the stage separation
  before it returns, which sets the mass to that of the upper stack: from 100000 kg to
  138300 kg.
\<close>

theorem mass_floor_and_monotonicity_counterexample:
  "phase (state (withTelemetry (\<lambda>t. t\<lparr>mass := 26800\<rparr>) (inFlight SECOND_STAGE 2)))
      = SECOND_STAGE
   \<and> dryMass (secondStage specs) + payload specs
        \<le> mass (telemetry (withTelemetry (\<lambda>t. t\<lparr>mass := 26800\<rparr>) (inFlight SECOND_STAGE 2)))
   \<and> mass (telemetry (updateSimulation
          (withTelemetry (\<lambda>t. t\<lparr>mass := 26800\<rparr>) (inFlight SECOND_STAGE 2))))
        < dryMass (secondStage specs) + payload specs
   \<and> phase (state (withState (\<lambda>s. s\<lparr>missionTime := 162\<rparr>)
        (withTelemetry (\<lambda>t. t\<lparr>stage1BurnTime := 161.9, mass := 100000\<rparr>)
          (inFlight ASCENT 1)))) = ASCENT
   \<and> mass (telemetry (withState (\<lambda>s. s\<lparr>missionTime := 162\<rparr>)
        (withTelemetry (\<lambda>t. t\<lparr>stage1BurnTime := 161.9, mass := 100000\<rparr>)
          (inFlight ASCENT 1))))
        < mass (telemetry (updateSimulation (withState (\<lambda>s. s\<lparr>missionTime := 162\<rparr>)
            (withTelemetry (\<lambda>t. t\<lparr>stage1BurnTime := 161.9, mass := 100000\<rparr>)
              (inFlight ASCENT 1)))))"
proof -
  let ?f = "withTelemetry (\<lambda>t. t\<lparr>mass := 26800\<rparr>) (inFlight SECOND_STAGE 2)"
  let ?s = "withState (\<lambda>s. s\<lparr>missionTime := 162\<rparr>)
              (withTelemetry (\<lambda>t. t\<lparr>stage1BurnTime := 161.9, mass := 100000\<rparr>)
                (inFlight ASCENT 1))"
  have fph: "phase (state ?f) = SECOND_STAGE" and fst: "stageNumber (state ?f) = 2"
    and fth: "throttleLevel (state ?f) = 100" and fm: "mass (telemetry ?f) = 26800"
    by (simp_all add: withTelemetry_def inFlight_def constructor_defs)
  have "stageNumber (state (updateSimulation ?f)) = stageNumber (state ?f)"
    using fph fst
    by (simp add: updateSimulation_unfold dispatchPhase_cases checkPhaseTransitions_stage(1))
  from updateSimulation_mass [OF _ this] fph fst fth fm
  have "mass (telemetry (updateSimulation ?f)) =
          26800 - (934000 * (100 / 100) / (348 * 9.81)) * 0.1"
    by (simp add: calculateThrust_def specs_def constants_def)
  then have below: "mass (telemetry (updateSimulation ?f))
      < dryMass (secondStage specs) + payload specs"
    by (simp add: specs_def)
  have floor: "dryMass (secondStage specs) + payload specs \<le> mass (telemetry ?f)"
    by (simp add: fm specs_def)
  have sph: "phase (state ?s) = ASCENT" and sst: "stageNumber (state ?s) = 1"
    and sbt: "burnTime (firstStage specs) \<le> stage1BurnTime (telemetry ?s) + 0.1"
    and smt: "3 < missionTime (state ?s) + 0.1"
    and sm: "mass (telemetry ?s) = 100000"
    by (simp_all add: withState_def withTelemetry_def inFlight_def constructor_defs specs_def)
  note after = updateSimulation_burnout(4) [OF sph sst sbt smt]
  have up: "mass (telemetry ?s) < mass (telemetry (updateSimulation ?s))"
    unfolding after sm by (simp add: specs_def)
  from fph floor below sph up show ?thesis
    by blast
qed

text \<open>
  C3, as the code has it. A tick taken in \<open>ASCENT\<close> or \<open>SECOND_STAGE\<close> with a throttle
  level that is not negative, on which the stage number does not change (no stage separation
  on this tick), lowers the mass by the propellant flow of one time step, 0.1 s times the
  commanded thrust over the product of specific impulse and \<^verbatim>\<open>g0\<close>, and so does not raise
  it. The code applies no lower bound to the mass.
\<close>

theorem mass_nonincreasing_without_separation:
  assumes "phase (state e) = ASCENT \<or> phase (state e) = SECOND_STAGE"
    and "stageNumber (state (updateSimulation e)) = stageNumber (state e)"
    and "0 \<le> throttleLevel (state e)"
  shows "mass (telemetry (updateSimulation e)) \<le> mass (telemetry e)
         \<and> mass (telemetry (updateSimulation e)) =
             mass (telemetry e) -
               (calculateThrust e
                  (if stageNumber (state e) = 1 then firstStage specs else secondStage specs)
                * (throttleLevel (state e) / 100)
                / (specificImpulse
                     (if stageNumber (state e) = 1 then firstStage specs else secondStage specs)
                   * g0 constants)) * 0.1"
  using updateSimulation_mass_le [OF assms] updateSimulation_mass [OF assms(1,2)]
  by blast

theorem mass_nonincreasing_without_separation_witness:
  "phase (state (run [EvSeparateStage, EvTimerFires] newRocketSimulator)) = SECOND_STAGE
   \<and> stageNumber (state (updateSimulation (run [EvSeparateStage, EvTimerFires]
        newRocketSimulator)))
       = stageNumber (state (run [EvSeparateStage, EvTimerFires] newRocketSimulator))
   \<and> 0 \<le> throttleLevel (state (run [EvSeparateStage, EvTimerFires] newRocketSimulator))
   \<and> mass (telemetry (updateSimulation (run [EvSeparateStage, EvTimerFires]
        newRocketSimulator)))
       \<le> mass (telemetry (run [EvSeparateStage, EvTimerFires] newRocketSimulator))"
proof -
  let ?e = "run [EvSeparateStage, EvTimerFires] newRocketSimulator"
  have ph: "phase (state ?e) = SECOND_STAGE" and st: "stageNumber (state ?e) = 2"
    and th: "0 \<le> throttleLevel (state ?e)"
    by (simp_all add: separateStage_def timerFires_def secondStageIgnition_def
          constructor_defs)
  have same: "stageNumber (state (updateSimulation ?e)) = stageNumber (state ?e)"
    using ph st
    by (simp add: updateSimulation_unfold dispatchPhase_cases checkPhaseTransitions_stage(1))
  from ph have "phase (state ?e) = ASCENT \<or> phase (state ?e) = SECOND_STAGE"
    by simp
  from mass_nonincreasing_without_separation [OF this same th] ph same th show ?thesis
    by blast
qed

text \<open>
  C4. In every run (the constructor followed by any calls of the public methods and any
  timer callbacks) the propellant percentage is in [0, 100]. A tick of powered flight
  (\<open>LAUNCH\<close>, \<open>ASCENT\<close> or \<open>SECOND_STAGE\<close>) that brings the burn time of the active stage to
  the rated burn time of that stage, or beyond, leaves the propellant percentage at exactly 0.
\<close>

theorem propellantRemaining_bounds_and_burnout:
  "0 \<le> propellantRemaining (telemetry (run evs newRocketSimulator))
   \<and> propellantRemaining (telemetry (run evs newRocketSimulator)) \<le> 100
   \<and> (phase (state e) = LAUNCH \<or> phase (state e) = ASCENT \<or> phase (state e) = SECOND_STAGE
        \<longrightarrow>
        (stageNumber (state e) = 1 \<and>
           burnTime (firstStage specs) \<le> stage1BurnTime (telemetry (updateSimulation e))
           \<longrightarrow> propellantRemaining (telemetry (updateSimulation e)) = 0)
        \<and> (stageNumber (state e) \<noteq> 1 \<and>
           burnTime (secondStage specs) \<le> stage2BurnTime (telemetry (updateSimulation e))
           \<longrightarrow> propellantRemaining (telemetry (updateSimulation e)) = 0))"
proof -
  have "propellantInRange (run evs newRocketSimulator)"
    by (intro run_propellantInRange newRocketSimulator_propellantInRange)
  then have bounds: "0 \<le> propellantRemaining (telemetry (run evs newRocketSimulator))
      \<and> propellantRemaining (telemetry (run evs newRocketSimulator)) \<le> 100"
    by (simp add: propellantInRange_def)
  have burnout: "(stageNumber (state e) = 1 \<and>
           burnTime (firstStage specs) \<le> stage1BurnTime (telemetry (updateSimulation e))
           \<longrightarrow> propellantRemaining (telemetry (updateSimulation e)) = 0)
        \<and> (stageNumber (state e) \<noteq> 1 \<and>
           burnTime (secondStage specs) \<le> stage2BurnTime (telemetry (updateSimulation e))
           \<longrightarrow> propellantRemaining (telemetry (updateSimulation e)) = 0)"
    if "phase (state e) = LAUNCH \<or> phase (state e) = ASCENT \<or> phase (state e) = SECOND_STAGE"
    using updateSimulation_powered [OF that]
    by (simp add: simulateAscent_burn specs_def)
  from bounds burnout show ?thesis
    by blast
qed

theorem propellantRemaining_bounds_and_burnout_witness:
  "phase (state (withTelemetry (\<lambda>t. t\<lparr>stage1BurnTime := 161.9\<rparr>) (inFlight ASCENT 1))) = ASCENT
   \<and> stageNumber (state (withTelemetry (\<lambda>t. t\<lparr>stage1BurnTime := 161.9\<rparr>)
         (inFlight ASCENT 1))) = 1
   \<and> burnTime (firstStage specs) \<le> stage1BurnTime (telemetry (updateSimulation
         (withTelemetry (\<lambda>t. t\<lparr>stage1BurnTime := 161.9\<rparr>) (inFlight ASCENT 1))))
   \<and> propellantRemaining (telemetry (updateSimulation
         (withTelemetry (\<lambda>t. t\<lparr>stage1BurnTime := 161.9\<rparr>) (inFlight ASCENT 1)))) = 0
   \<and> propellantRemaining (telemetry (run [EvLaunch, EvUpdateSimulation, EvAbort,
         EvUpdateSimulation] newRocketSimulator)) \<le> 100"
proof -
  let ?e = "withTelemetry (\<lambda>t. t\<lparr>stage1BurnTime := 161.9\<rparr>) (inFlight ASCENT 1)"
  have ph: "phase (state ?e) = ASCENT" and st: "stageNumber (state ?e) = 1"
    by (simp_all add: withTelemetry_def inFlight_def constructor_defs)
  have "stage1BurnTime (telemetry (updateSimulation ?e)) = 161.9 + 0.1"
    using ph st
    by (simp add: updateSimulation_powered simulateAscent_burn)
      (simp add: withTelemetry_def inFlight_def constructor_defs)
  then have bt: "burnTime (firstStage specs) \<le> stage1BurnTime (telemetry (updateSimulation ?e))"
    by (simp add: specs_def)
  from ph st bt
    propellantRemaining_bounds_and_burnout
      [of "[EvLaunch, EvUpdateSimulation, EvAbort, EvUpdateSimulation]" ?e]
  show ?thesis
    by blast
qed

text \<open>
  C5. A tick never lowers \<^verbatim>\<open>telemetry.maxQ\<close>. In every run \<^verbatim>\<open>maxQ\<close> is the greatest of
  the dynamic pressures read at the end of the environment update of the ticks so far; as
  long as no tick has reached the environment update it is the constructor's 0.
\<close>

theorem maxQ_is_running_maximum:
  "maxQ (telemetry e) \<le> maxQ (telemetry (updateSimulation e))
   \<and> maxQ (telemetry (run evs newRocketSimulator)) =
       (if observedQ evs newRocketSimulator = [] then 0
        else Max (set (observedQ evs newRocketSimulator)))"
proof
  show "maxQ (telemetry e) \<le> maxQ (telemetry (updateSimulation e))"
    by (rule updateSimulation_maxQ_mono)
next
  let ?obs = "observedQ evs newRocketSimulator"
  have start: "maxQ (telemetry newRocketSimulator) = 0"
    by (simp add: constructor_defs)
  then have fold: "maxQ (telemetry (run evs newRocketSimulator)) = fold max ?obs 0"
    using run_maxQ_fold [of newRocketSimulator evs] by simp
  show "maxQ (telemetry (run evs newRocketSimulator)) =
          (if ?obs = [] then 0 else Max (set ?obs))"
  proof (cases "?obs = []")
    case True
    with fold show ?thesis by simp
  next
    case False
    then have "Max (set ?obs) \<in> set ?obs"
      by (intro Max_in) simp_all
    then have "0 \<le> Max (set ?obs)"
      by (rule observedQ_nonneg)
    moreover have "fold max ?obs 0 = Max (set (0 # ?obs))"
      by (simp only: Max.set_eq_fold)
    moreover have "Max (set (0 # ?obs)) = max 0 (Max (set ?obs))"
      using False by simp
    ultimately show ?thesis
      using fold False by simp
  qed
qed

theorem maxQ_is_running_maximum_witness:
  "observedQ [EvLaunch, EvUpdateSimulation] newRocketSimulator \<noteq> []
   \<and> maxQ (telemetry (run [EvLaunch, EvUpdateSimulation] newRocketSimulator)) =
       Max (set (observedQ [EvLaunch, EvUpdateSimulation] newRocketSimulator))"
proof -
  have "phase (state (launch newRocketSimulator)) = LAUNCH"
    by (simp add: launch_def constructor_defs)
  then have "observedQ [EvLaunch, EvUpdateSimulation] newRocketSimulator \<noteq> []"
    by simp
  with maxQ_is_running_maximum [of newRocketSimulator "[EvLaunch, EvUpdateSimulation]"]
  show ?thesis
    by simp
qed

text \<open>
  C6. \<^verbatim>\<open>checkAnomalies\<close> compares strictly. The returned list holds a record for
  \<^verbatim>\<open>thrust\<close> exactly when the thrust is greater than \<^verbatim>\<open>limits.maxThrust\<close>, one for
  \<^verbatim>\<open>dynamicPressure\<close> exactly when the dynamic pressure is greater than \<^verbatim>\<open>limits.maxQ\<close>, one
  for \<^verbatim>\<open>gForce\<close> exactly when the absolute G-force is greater than \<^verbatim>\<open>limits.maxG\<close>; the first
  and the last are \<open>CRITICAL\<close>, the second is a \<open>WARNING\<close>. With the thrust exactly at the limit
  there is no thrust record.
\<close>

theorem checkAnomalies_strict_comparisons:
  "((\<exists>a \<in> set (fst (checkAnomalies e)). parameter a = ''thrust'')
      = (thrust (telemetry e) > maxThrust limits))
   \<and> (\<forall>a \<in> set (fst (checkAnomalies e)). parameter a = ''thrust'' \<longrightarrow> severity a = ''CRITICAL'')
   \<and> ((\<exists>a \<in> set (fst (checkAnomalies e)). parameter a = ''dynamicPressure'')
      = (dynamicPressure (telemetry e) > maxQLimit limits))
   \<and> (\<forall>a \<in> set (fst (checkAnomalies e)).
         parameter a = ''dynamicPressure'' \<longrightarrow> severity a = ''WARNING'')
   \<and> ((\<exists>a \<in> set (fst (checkAnomalies e)). parameter a = ''gForce'')
      = (\<bar>gForce (telemetry e)\<bar> > maxG limits))
   \<and> (\<forall>a \<in> set (fst (checkAnomalies e)). parameter a = ''gForce'' \<longrightarrow> severity a = ''CRITICAL'')
   \<and> (thrust (telemetry e) = maxThrust limits \<longrightarrow>
         \<not> (\<exists>a \<in> set (fst (checkAnomalies e)). parameter a = ''thrust''))"
  by (simp add: checkAnomalies_def Let_def)

theorem checkAnomalies_strict_comparisons_witness:
  "thrust (telemetry (withTelemetry (\<lambda>t. t\<lparr>thrust := 8500000\<rparr>) (inFlight ASCENT 1)))
     = maxThrust limits
   \<and> \<not> (\<exists>a \<in> set (fst (checkAnomalies
             (withTelemetry (\<lambda>t. t\<lparr>thrust := 8500000\<rparr>) (inFlight ASCENT 1)))).
           parameter a = ''thrust'')
   \<and> (\<exists>a \<in> set (fst (checkAnomalies
             (withTelemetry (\<lambda>t. t\<lparr>thrust := 8500001\<rparr>) (inFlight ASCENT 1)))).
           parameter a = ''thrust'' \<and> severity a = ''CRITICAL'')"
proof -
  let ?at = "withTelemetry (\<lambda>t. t\<lparr>thrust := 8500000\<rparr>) (inFlight ASCENT 1)"
  let ?over = "withTelemetry (\<lambda>t. t\<lparr>thrust := 8500001\<rparr>) (inFlight ASCENT 1)"
  have at: "thrust (telemetry ?at) = maxThrust limits"
    by (simp add: withTelemetry_def limits_def)
  have over: "thrust (telemetry ?over) > maxThrust limits"
    by (simp add: withTelemetry_def limits_def)
  from at checkAnomalies_strict_comparisons [of ?at]
  have none: "\<not> (\<exists>a \<in> set (fst (checkAnomalies ?at)). parameter a = ''thrust'')"
    by blast
  from over checkAnomalies_strict_comparisons [of ?over]
  have some: "\<exists>a \<in> set (fst (checkAnomalies ?over)).
                parameter a = ''thrust'' \<and> severity a = ''CRITICAL''"
    by blast
  from at none some show ?thesis
    by blast
qed

text \<open>
  C7. \<^verbatim>\<open>checkAnomalies\<close> only reads: the simulator object it leaves is the one it was given,
  so the flight state, the telemetry, the phase and the abort flag are what they were.
\<close>

theorem checkAnomalies_reads_only:
  "snd (checkAnomalies e) = e
   \<and> state (snd (checkAnomalies e)) = state e
   \<and> telemetry (snd (checkAnomalies e)) = telemetry e
   \<and> phase (state (snd (checkAnomalies e))) = phase (state e)
   \<and> abortFlag (state (snd (checkAnomalies e))) = abortFlag (state e)
   \<and> applyEvent EvCheckAnomalies e = e"
  by (simp add: checkAnomalies_def Let_def)

text \<open>
  C8. On a tick in \<open>LANDING\<close> the branch of the landing sequencer that runs is
  \<open>landingBand\<close> of the altitude and the \<^verbatim>\<open>landingBurnStarted\<close> flag, and of nothing else
  (the \<^verbatim>\<open>landingLegsDeployed\<close> flag is read inside branch 5 only). At 60000 m it is branch 1,
  and the tick ends with a thrust of exactly 1800000 N; at 1000 m with the landing burn not
  started it is branch 4, the coast, and the tick ends with thrust 0; at 10 m it is branch 6,
  the touchdown burn.
\<close>

theorem landing_band_selection:
  assumes "phase (state e) = LANDING"
  shows "updateSimulation e =
           calculateOrbitalParams (updateEnvironment (landingOtherParameters
             (landingBranch (landingBand (altitude (telemetry e)) (landingBurnStarted (state e)))
                e)))
         \<and> (altitude (telemetry e) = 60000 \<longrightarrow>
               landingBand (altitude (telemetry e)) (landingBurnStarted (state e)) = 1
               \<and> thrust (telemetry (updateSimulation e)) = 1800000
               \<and> engineStatus (state (updateSimulation e)) = ''RE-ENTRY BURN (3 ENGINES)'')
         \<and> (altitude (telemetry e) = 1000 \<and> \<not> landingBurnStarted (state e) \<longrightarrow>
               landingBand (altitude (telemetry e)) (landingBurnStarted (state e)) = 4
               \<and> thrust (telemetry (updateSimulation e)) = 0
               \<and> engineStatus (state (updateSimulation e)) = ''PREPARING LANDING BURN'')
         \<and> (altitude (telemetry e) = 10 \<longrightarrow>
               landingBand (altitude (telemetry e)) (landingBurnStarted (state e)) = 6
               \<and> engineStatus (state (updateSimulation e)) = ''TOUCHDOWN BURN'')"
proof -
  note tick = updateSimulation_in_LANDING [OF assms]
  have b1: "landingBand 60000 (landingBurnStarted (state e)) = 1"
    and b4: "landingBand 1000 False = 4"
    and b6: "landingBand 10 (landingBurnStarted (state e)) = 6"
    by (simp_all add: landingBand_def)
  have high: "landingBand (altitude (telemetry e)) (landingBurnStarted (state e)) = 1
      \<and> thrust (telemetry (updateSimulation e)) = 1800000
      \<and> engineStatus (state (updateSimulation e)) = ''RE-ENTRY BURN (3 ENGINES)''"
    if "altitude (telemetry e) = 60000"
    using that b1 by (simp add: tick landingBranch_def landingPhases_outputs)
  have coast: "landingBand (altitude (telemetry e)) (landingBurnStarted (state e)) = 4
      \<and> thrust (telemetry (updateSimulation e)) = 0
      \<and> engineStatus (state (updateSimulation e)) = ''PREPARING LANDING BURN''"
    if "altitude (telemetry e) = 1000 \<and> \<not> landingBurnStarted (state e)"
    using that b4 by (simp add: tick landingBranch_def landingPhases_outputs)
  have touchdown: "landingBand (altitude (telemetry e)) (landingBurnStarted (state e)) = 6
      \<and> engineStatus (state (updateSimulation e)) = ''TOUCHDOWN BURN''"
    if "altitude (telemetry e) = 10"
    using that b6 by (simp add: tick landingBranch_def landingPhases_outputs)
  from tick high coast touchdown show ?thesis
    by blast
qed

theorem landing_band_selection_witness:
  "phase (state (withTelemetry (\<lambda>t. t\<lparr>altitude := 60000, velocity := - 400\<rparr>)
      (inFlight LANDING 1))) = LANDING
   \<and> altitude (telemetry (withTelemetry (\<lambda>t. t\<lparr>altitude := 60000, velocity := - 400\<rparr>)
      (inFlight LANDING 1))) = 60000
   \<and> thrust (telemetry (updateSimulation
        (withTelemetry (\<lambda>t. t\<lparr>altitude := 60000, velocity := - 400\<rparr>)
           (inFlight LANDING 1)))) = 1800000
   \<and> thrust (telemetry (updateSimulation
        (withTelemetry (\<lambda>t. t\<lparr>altitude := 1000, velocity := - 100\<rparr>)
           (inFlight LANDING 1)))) = 0
   \<and> engineStatus (state (updateSimulation
        (withTelemetry (\<lambda>t. t\<lparr>altitude := 10, velocity := - 4\<rparr>)
           (inFlight LANDING 1)))) = ''TOUCHDOWN BURN''"
proof -
  let ?high = "withTelemetry (\<lambda>t. t\<lparr>altitude := 60000, velocity := - 400\<rparr>)
                 (inFlight LANDING 1)"
  let ?mid = "withTelemetry (\<lambda>t. t\<lparr>altitude := 1000, velocity := - 100\<rparr>)
                (inFlight LANDING 1)"
  let ?low = "withTelemetry (\<lambda>t. t\<lparr>altitude := 10, velocity := - 4\<rparr>) (inFlight LANDING 1)"
  have ph: "phase (state ?high) = LANDING" "phase (state ?mid) = LANDING"
    "phase (state ?low) = LANDING"
    by (simp_all add: withTelemetry_def inFlight_def)
  have al: "altitude (telemetry ?high) = 60000"
    and mid: "altitude (telemetry ?mid) = 1000 \<and> \<not> landingBurnStarted (state ?mid)"
    and low: "altitude (telemetry ?low) = 10"
    by (simp_all add: withTelemetry_def inFlight_def constructor_defs)
  from al landing_band_selection [OF ph(1)]
  have a: "thrust (telemetry (updateSimulation ?high)) = 1800000"
    by blast
  from mid landing_band_selection [OF ph(2)]
  have b: "thrust (telemetry (updateSimulation ?mid)) = 0"
    by blast
  from low landing_band_selection [OF ph(3)]
  have c: "engineStatus (state (updateSimulation ?low)) = ''TOUCHDOWN BURN''"
    by blast
  from ph(1) al a b c show ?thesis
    by blast
qed

text \<open>
  C9. The claim: after \<^verbatim>\<open>abort()\<close>, called in any phase, the thrust is 0 at the end of
  every later tick until \<open>ABORTED_STOPPED\<close>. \<^verbatim>\<open>abort()\<close> does not cancel the callback that
  \<^verbatim>\<open>separateStage\<close> has scheduled. In the run below the stage is separated, the mission is
  aborted (phase \<open>ABORT\<close>, thrust 0), the callback fires and sets the phase to
  \<open>SECOND_STAGE\<close>, and the next tick ends under a thrust of 934000 N.
\<close>

theorem abort_overridden_by_pending_callback_counterexample:
  "phase (state (run [EvSeparateStage, EvAbort] newRocketSimulator)) = ABORT
   \<and> thrust (telemetry (run [EvSeparateStage, EvAbort] newRocketSimulator)) = 0
   \<and> phase (state (run [EvSeparateStage, EvAbort, EvTimerFires, EvUpdateSimulation]
         newRocketSimulator)) = SECOND_STAGE
   \<and> thrust (telemetry (run [EvSeparateStage, EvAbort, EvTimerFires, EvUpdateSimulation]
         newRocketSimulator)) = 934000"
proof -
  let ?a = "run [EvSeparateStage, EvAbort] newRocketSimulator"
  let ?e = "timerFires ?a"
  have a: "phase (state ?a) = ABORT" "thrust (telemetry ?a) = 0"
    by (simp_all add: separateStage_def abort_def constructor_defs)
  have ph: "phase (state ?e) = SECOND_STAGE" and st: "stageNumber (state ?e) = 2"
    and th: "throttleLevel (state ?e) = 100"
    and tel: "telemetry ?e = initialTelemetry\<lparr>mass := 138300, thrust := 0\<rparr>"
    by (simp_all add: separateStage_def abort_def timerFires_def secondStageIgnition_def
          constructor_defs specs_def)
  have e: "run [EvSeparateStage, EvAbort, EvTimerFires, EvUpdateSimulation]
             newRocketSimulator = updateSimulation ?e"
    by simp
  from a second_stage_on_the_pad [OF ph st th tel] show ?thesis
    unfolding e by blast
qed

text \<open>
  C9, as the code has it. After \<^verbatim>\<open>abort()\<close>, called in any phase, and as long as ticks
  follow one another with no timer callback firing and no other command in between, the
  thrust is 0 at once and at the end of every tick (ticks in \<open>ABORTED_STOPPED\<close> included),
  and if the altitude is positive some number of ticks brings the simulator to
  \<open>ABORTED_STOPPED\<close> with altitude and velocity 0. If no callback is pending when
  \<^verbatim>\<open>abort()\<close> is called, none is pending after any number of these ticks, and the timer
  event changes nothing.
\<close>

theorem abort_cuts_thrust_and_terminates:
  "thrust (telemetry ((updateSimulation ^^ n) (abort e))) = 0
   \<and> (0 < altitude (telemetry e) \<longrightarrow>
        (\<exists>m. phase (state ((updateSimulation ^^ m) (abort e))) = ABORTED_STOPPED
             \<and> altitude (telemetry ((updateSimulation ^^ m) (abort e))) = 0
             \<and> velocity (telemetry ((updateSimulation ^^ m) (abort e))) = 0))
   \<and> (pendingTimers e = 0 \<longrightarrow>
        timerFires ((updateSimulation ^^ n) (abort e)) = (updateSimulation ^^ n) (abort e))"
proof -
  have ph: "phase (state (abort e)) = ABORT \<or> phase (state (abort e)) = ABORTED_STOPPED"
    and th: "thrust (telemetry (abort e)) = 0"
    and pt: "pendingTimers (abort e) = pendingTimers e"
    by (simp_all add: abort_def)
  from abort_thrust_iterate [OF ph th, of n]
  have thrust0: "thrust (telemetry ((updateSimulation ^^ n) (abort e))) = 0"
    by simp
  have stop: "\<exists>m. phase (state ((updateSimulation ^^ m) (abort e))) = ABORTED_STOPPED
             \<and> altitude (telemetry ((updateSimulation ^^ m) (abort e))) = 0
             \<and> velocity (telemetry ((updateSimulation ^^ m) (abort e))) = 0"
    if pos: "0 < altitude (telemetry e)"
  proof -
    have ph': "phase (state (abort e)) = ABORT"
      and al: "altitude (telemetry (abort e)) = altitude (telemetry e)"
      by (simp_all add: abort_def)
    from pos have "0 < 1 / altitude (telemetry e)"
      by simp
    from real_arch_pow_inv [OF this, of "0.85"]
    obtain k where "(0.85::real) ^ k < 1 / altitude (telemetry e)"
      by auto
    with pos have "altitude (telemetry e) * 0.85 ^ k < 1"
      by (simp add: field_simps)
    with al have "altitude (telemetry (abort e)) * 0.85 ^ k < 1"
      by simp
    from abort_descent_terminates [OF ph' _ this] pos al show ?thesis
      by simp
  qed
  have idle: "timerFires ((updateSimulation ^^ n) (abort e)) = (updateSimulation ^^ n) (abort e)"
    if "pendingTimers e = 0"
    using that abort_pendingTimers_iterate [OF ph th, of n] pt
    by (simp add: timerFires_def)
  from thrust0 stop idle show ?thesis
    by blast
qed

theorem abort_cuts_thrust_and_terminates_witness:
  "0 < altitude (telemetry (withTelemetry (\<lambda>t. t\<lparr>altitude := 30000, velocity := 900,
         thrust := 8000000\<rparr>) (inFlight ASCENT 1)))
   \<and> pendingTimers (withTelemetry (\<lambda>t. t\<lparr>altitude := 30000, velocity := 900,
         thrust := 8000000\<rparr>) (inFlight ASCENT 1)) = 0
   \<and> thrust (telemetry ((updateSimulation ^^ 5) (abort
         (withTelemetry (\<lambda>t. t\<lparr>altitude := 30000, velocity := 900, thrust := 8000000\<rparr>)
           (inFlight ASCENT 1))))) = 0
   \<and> (\<exists>m. phase (state ((updateSimulation ^^ m) (abort
         (withTelemetry (\<lambda>t. t\<lparr>altitude := 30000, velocity := 900, thrust := 8000000\<rparr>)
           (inFlight ASCENT 1))))) = ABORTED_STOPPED)
   \<and> timerFires ((updateSimulation ^^ 5) (abort
         (withTelemetry (\<lambda>t. t\<lparr>altitude := 30000, velocity := 900, thrust := 8000000\<rparr>)
           (inFlight ASCENT 1))))
       = (updateSimulation ^^ 5) (abort
         (withTelemetry (\<lambda>t. t\<lparr>altitude := 30000, velocity := 900, thrust := 8000000\<rparr>)
           (inFlight ASCENT 1)))"
proof -
  let ?e = "withTelemetry (\<lambda>t. t\<lparr>altitude := 30000, velocity := 900, thrust := 8000000\<rparr>)
              (inFlight ASCENT 1)"
  have pos: "0 < altitude (telemetry ?e)"
    by (simp add: withTelemetry_def)
  have none: "pendingTimers ?e = 0"
    by (simp add: withTelemetry_def inFlight_def constructor_defs)
  from pos none abort_cuts_thrust_and_terminates [of 5 ?e] show ?thesis
    by blast
qed

text \<open>
  C10. A throttle level stored by \<^verbatim>\<open>setThrottle\<close> does not survive the next tick of powered
  flight at low dynamic pressure: if the phase is \<open>ASCENT\<close> or \<open>SECOND_STAGE\<close> and the
  dynamic pressure is below 25000 Pa, then after \<^verbatim>\<open>setThrottle(level)\<close> and one tick the
  throttle level is 100, whatever the level and whichever stage is active; the same holds
  for a tick that starts from any stored level not above 100.
\<close>

theorem setThrottle_reset_by_guidance:
  assumes "phase (state e) = ASCENT \<or> phase (state e) = SECOND_STAGE"
    and "dynamicPressure (telemetry e) < 25000"
  shows "throttleLevel (state (updateSimulation (setThrottle level e))) = 100
         \<and> (throttleLevel (state e) \<le> 100 \<longrightarrow>
              throttleLevel (state (updateSimulation e)) = 100)"
proof -
  let ?e = "setThrottle level e"
  have ph: "phase (state ?e) = ASCENT \<or> phase (state ?e) = SECOND_STAGE"
    and dp: "dynamicPressure (telemetry ?e) < 25000"
    and th: "throttleLevel (state ?e) \<le> 100"
    using assms by (simp_all add: setThrottle_def)
  from updateSimulation_throttle_restored [OF ph dp th]
    updateSimulation_throttle_restored [OF assms]
  show ?thesis
    by blast
qed

theorem setThrottle_reset_by_guidance_witness:
  "(phase (state (inFlight SECOND_STAGE 2)) = ASCENT
      \<or> phase (state (inFlight SECOND_STAGE 2)) = SECOND_STAGE)
   \<and> dynamicPressure (telemetry (inFlight SECOND_STAGE 2)) < 25000
   \<and> throttleLevel (state (setThrottle 40 (inFlight SECOND_STAGE 2))) = 40
   \<and> throttleLevel (state (updateSimulation (setThrottle 40 (inFlight SECOND_STAGE 2)))) = 100"
proof -
  have a: "phase (state (inFlight SECOND_STAGE 2)) = ASCENT
             \<or> phase (state (inFlight SECOND_STAGE 2)) = SECOND_STAGE"
    by (simp add: inFlight_def constructor_defs)
  have b: "dynamicPressure (telemetry (inFlight SECOND_STAGE 2)) < 25000"
    by (simp add: inFlight_def constructor_defs)
  have c: "throttleLevel (state (setThrottle 40 (inFlight SECOND_STAGE 2))) = 40"
    by (simp add: setThrottle_def)
  from a b c setThrottle_reset_by_guidance [OF a b, of 40] show ?thesis
    by blast
qed

end
